theory Spec2Isabelle
  imports Complex_Main
begin

section \<open>Numbers and arrays\<close>

text \<open>
  A TypeScript \<open>number\<close> is an IEEE 754 double. The indicator library (\<open>calculateSMA\<close>,
  \<open>calculateEMA\<close>, \<open>calculateMACD\<close>) is modelled on the type \<open>double\<close> below: every
  operation rounds its exact result to the nearest double, ties to even, and overflows to
  an infinity; \<open>NaN\<close> and the infinities are values. The sign of a zero is not kept: the
  only divisors that can be zero in the modelled functions are \<open>period\<close>, \<open>i + 1\<close> and
  \<open>period + 1\<close>, which are \<open>+0\<close> when they are zero, and \<open>0\<close> and \<open>-0\<close> are equal and
  both falsy.

  The alert evaluator, the store and the risk ratios are modelled on \<open>real\<close>, with exact
  arithmetic. The evaluator compares numbers and divides in two branches (volume spike,
  volume breakout); the ratios divide and take square roots. The theorems that evaluate
  a quotient or a ratio are stated at concrete inputs, which the source computes exactly
  (the quotients) or to within rounding of the value stated (the ratios).

  A window length (\<open>period\<close>) and a cap (\<open>maxNotifications\<close>) are the integers that the
  numbers passed hold, \<open>int\<close>, so that \<open>period - 1\<close> can be negative as it can in the
  source. The \<open>null\<close> of a \<open>number | null\<close> is \<open>None\<close>.
\<close>

text \<open>
  \<open>Array.prototype.slice(start, end)\<close>: a negative index counts from the end of the
  array, both indices are clamped to the array, and an empty range gives the empty array.
\<close>

definition slice :: "'a list \<Rightarrow> int \<Rightarrow> int \<Rightarrow> 'a list" where
  "slice xs start fin =
     (let n = int (length xs);
          s = (if start < 0 then max (n + start) 0 else min start n);
          e = (if fin < 0 then max (n + fin) 0 else min fin n)
      in take (nat (e - s)) (drop (nat s) xs))"

section \<open>Double-precision numbers\<close>

text \<open>The number of binary digits of a positive integer.\<close>

function bit_length :: "int \<Rightarrow> nat" where
  "bit_length n = (if n \<le> 0 then 0 else Suc (bit_length (n div 2)))"
  by pat_completeness auto
termination
  by (relation "measure nat") auto

declare bit_length.simps [simp del]

text \<open>\<open>2\<close> to an integer power.\<close>

definition pow2 :: "int \<Rightarrow> real" where
  "pow2 e = (if 0 \<le> e then 2 ^ nat e else 1 / 2 ^ nat (- e))"

text \<open>For \<open>a > 0\<close>, the integer \<open>k\<close> with \<open>2 ^ k \<le> a < 2 ^ (k + 1)\<close>.\<close>

definition floor_log2 :: "real \<Rightarrow> int" where
  "floor_log2 a =
     (if 1 \<le> a then int (bit_length \<lfloor>a\<rfloor>) - 1
      else - int (bit_length (\<lceil>1 / a\<rceil> - 1)))"

text \<open>Rounding to the nearest integer, a tie going to the even one.\<close>

definition round_half_even :: "real \<Rightarrow> int" where
  "round_half_even m =
     (let f = \<lfloor>m\<rfloor>; d = m - of_int f
      in if d < 1 / 2 then f else if d > 1 / 2 then f + 1
         else if even f then f else f + 1)"

text \<open>
  Rounding a real to 53 significant bits (to a multiple of \<open>2 ^ -1074\<close> for the
  subnormal numbers), to nearest with ties to even; the exponent is not bounded above.
\<close>

definition fl :: "real \<Rightarrow> real" where
  "fl x =
     (if x = 0 then 0
      else (let a = \<bar>x\<bar>;
                e = max (floor_log2 a - 52) (- 1074);
                r = round_half_even (a / pow2 e)
            in sgn x * of_int r * pow2 e))"

datatype double = Num real | PlusInfinity | MinusInfinity | NaN

text \<open>The double that an operation returns when its exact result is \<open>y\<close>.\<close>

definition round_num :: "real \<Rightarrow> double" where
  "round_num y =
     (let z = fl y
      in if z \<ge> 2 ^ 1024 then PlusInfinity
         else if z \<le> - (2 ^ 1024) then MinusInfinity
         else Num z)"

definition representable :: "real \<Rightarrow> bool" where
  "representable y = (round_num y = Num y)"

text \<open>
  The four operations. Each one rounds the exact result of two finite operands with
  \<open>round_num\<close> and follows the IEEE rules for \<open>NaN\<close> and the infinities. A divisor
  \<open>Num 0\<close> is \<open>+0\<close>.
\<close>

fun fneg :: "double \<Rightarrow> double" where
  "fneg (Num x) = Num (- x)"
| "fneg PlusInfinity = MinusInfinity"
| "fneg MinusInfinity = PlusInfinity"
| "fneg NaN = NaN"

fun fadd :: "double \<Rightarrow> double \<Rightarrow> double" where
  "fadd (Num x) (Num y) = round_num (x + y)"
| "fadd NaN b = NaN"
| "fadd a NaN = NaN"
| "fadd PlusInfinity MinusInfinity = NaN"
| "fadd MinusInfinity PlusInfinity = NaN"
| "fadd PlusInfinity b = PlusInfinity"
| "fadd a PlusInfinity = PlusInfinity"
| "fadd MinusInfinity b = MinusInfinity"
| "fadd a MinusInfinity = MinusInfinity"

definition fsub :: "double \<Rightarrow> double \<Rightarrow> double" where
  "fsub a b = fadd a (fneg b)"

text \<open>The infinity with the sign of \<open>x\<close>, and \<open>NaN\<close> for \<open>x = 0\<close>.\<close>

definition signed_infinity :: "real \<Rightarrow> double" where
  "signed_infinity x = (if x = 0 then NaN else if x > 0 then PlusInfinity else MinusInfinity)"

fun fmul :: "double \<Rightarrow> double \<Rightarrow> double" where
  "fmul (Num x) (Num y) = round_num (x * y)"
| "fmul NaN b = NaN"
| "fmul a NaN = NaN"
| "fmul (Num x) PlusInfinity = signed_infinity x"
| "fmul (Num x) MinusInfinity = signed_infinity (- x)"
| "fmul PlusInfinity (Num y) = signed_infinity y"
| "fmul MinusInfinity (Num y) = signed_infinity (- y)"
| "fmul PlusInfinity PlusInfinity = PlusInfinity"
| "fmul MinusInfinity MinusInfinity = PlusInfinity"
| "fmul PlusInfinity MinusInfinity = MinusInfinity"
| "fmul MinusInfinity PlusInfinity = MinusInfinity"

fun fdiv :: "double \<Rightarrow> double \<Rightarrow> double" where
  "fdiv (Num x) (Num y) = (if y = 0 then signed_infinity x else round_num (x / y))"
| "fdiv NaN b = NaN"
| "fdiv a NaN = NaN"
| "fdiv (Num x) b = Num 0"
| "fdiv PlusInfinity (Num y) = (if y < 0 then MinusInfinity else PlusInfinity)"
| "fdiv MinusInfinity (Num y) = (if y < 0 then PlusInfinity else MinusInfinity)"
| "fdiv a b = NaN"

section \<open>Indicator library (technicalIndicators.ts)\<close>

text \<open>\<open>xs.reduce((acc, val) => acc + val, 0)\<close> on an array of numbers.\<close>

definition reduce_add :: "double list \<Rightarrow> double" where
  "reduce_add xs = foldl (\<lambda>acc val. fadd acc val) (Num 0) xs"

subsection \<open>calculateSMA\<close>

text \<open>One iteration of the loop of \<open>calculateSMA\<close>: the value pushed at index \<open>i\<close>.\<close>

definition sma_step :: "double list \<Rightarrow> int \<Rightarrow> double option list \<Rightarrow> nat \<Rightarrow> double option list" where
  "sma_step data period result i =
     (if int i < period - 1 then result @ [None]
      else (let sum = reduce_add (slice data (int i - period + 1) (int i + 1))
            in result @ [Some (fdiv sum (Num (real_of_int period)))]))"

definition calculateSMA :: "double list \<Rightarrow> int \<Rightarrow> double option list" where
  "calculateSMA data period = foldl (sma_step data period) [] [0..<length data]"

subsection \<open>calculateEMA\<close>

text \<open>
  One iteration of the loop of \<open>calculateEMA\<close>. At index \<open>i\<close> the array \<open>result\<close> holds
  the \<open>i\<close> values pushed so far, so \<open>result[i - 1]\<close> is in range whenever it is read.
\<close>

definition ema_step :: "double list \<Rightarrow> int \<Rightarrow> double option list \<Rightarrow> nat \<Rightarrow> double option list" where
  "ema_step data period result i =
     (let multiplier = fdiv (Num 2) (fadd (Num (real_of_int period)) (Num 1))
      in if i = 0 then result @ [Some (data ! i)]
         else if int i < period - 1 then
           (let sum = reduce_add (slice data 0 (int i + 1))
            in result @ [Some (fdiv sum (Num (real i + 1)))])
         else (case result ! (i - 1) of
                 Some prevEMA \<Rightarrow>
                   result @ [Some (fadd (fmul (data ! i) multiplier)
                                        (fmul prevEMA (fsub (Num 1) multiplier)))]
               | None \<Rightarrow> result @ [None]))"

definition calculateEMA :: "double list \<Rightarrow> int \<Rightarrow> double option list" where
  "calculateEMA data period = foldl (ema_step data period) [] [0..<length data]"

subsection \<open>calculateMACD\<close>

record macd_point =
  macd :: "double option"
  signal :: "double option"
  histogram :: "double option"

text \<open>
  An array read \<open>xs[i]\<close> of a \<open>(number | null)[]\<close>: out of range it is \<open>undefined\<close>,
  which the only reader below turns into \<open>null\<close>, so both are \<open>None\<close> here.
\<close>

definition array_read :: "double option list \<Rightarrow> nat \<Rightarrow> double option" where
  "array_read xs i = (if i < length xs then xs ! i else None)"

text \<open>
  \<open>v || null\<close> for \<open>v\<close> a number, \<open>null\<close> or \<open>undefined\<close>: the numbers \<open>0\<close> and \<open>NaN\<close>
  are falsy in JavaScript, so they are replaced by \<open>null\<close> as \<open>null\<close> and \<open>undefined\<close>
  are.
\<close>

definition or_null :: "double option \<Rightarrow> double option" where
  "or_null v =
     (case v of
        None \<Rightarrow> None
      | Some (Num x) \<Rightarrow> (if x = 0 then None else Some (Num x))
      | Some NaN \<Rightarrow> None
      | Some d \<Rightarrow> Some d)"

text \<open>The MACD line: the first loop of \<open>calculateMACD\<close>.\<close>

definition macd_line :: "double option list \<Rightarrow> double option list \<Rightarrow> nat \<Rightarrow> double option list" where
  "macd_line fastEMA slowEMA n =
     map (\<lambda>i. case fastEMA ! i of
                 None \<Rightarrow> None
               | Some f \<Rightarrow> (case slowEMA ! i of None \<Rightarrow> None | Some s \<Rightarrow> Some (fsub f s)))
         [0..<n]"

text \<open>\<open>macdLine.filter(val => val !== null) as number[]\<close>\<close>

definition valid_values :: "double option list \<Rightarrow> double list" where
  "valid_values xs = map the (filter (\<lambda>val. val \<noteq> None) xs)"

text \<open>
  The alignment loop: it walks \<open>macdLine\<close>, and \<open>signalIndex\<close> advances at each position
  where the MACD line has a value.
\<close>

fun align_signal :: "double option list \<Rightarrow> double option list \<Rightarrow> nat \<Rightarrow> double option list" where
  "align_signal [] signalLine signalIndex = []"
| "align_signal (Some m # rest) signalLine signalIndex =
     or_null (array_read signalLine signalIndex) # align_signal rest signalLine (Suc signalIndex)"
| "align_signal (None # rest) signalLine signalIndex =
     None # align_signal rest signalLine signalIndex"

definition calculateMACD :: "double list \<Rightarrow> int \<Rightarrow> int \<Rightarrow> int \<Rightarrow> macd_point list" where
  "calculateMACD data fastPeriod slowPeriod signalPeriod =
     (let fastEMA = calculateEMA data fastPeriod;
          slowEMA = calculateEMA data slowPeriod;
          macdLine = macd_line fastEMA slowEMA (length data);
          validMacdValues = valid_values macdLine;
          signalLine = calculateEMA validMacdValues signalPeriod;
          alignedSignalLine = align_signal macdLine signalLine 0
      in map (\<lambda>i. let m = macdLine ! i; sg = alignedSignalLine ! i
                   in \<lparr> macd = m, signal = sg,
                        histogram = (case m of
                                       None \<Rightarrow> None
                                     | Some mv \<Rightarrow> (case sg of None \<Rightarrow> None
                                                  | Some sv \<Rightarrow> Some (fsub mv sv))) \<rparr>)
             [0..<length data])"

section \<open>Risk ratios (quantAnalytics.ts)\<close>

text \<open>
  The ratios return a number that may be the literal \<open>Infinity\<close>; the result type has a
  constructor for it.
\<close>

datatype ratio = Finite real | PosInfinity

text \<open>\<open>xs.reduce((acc, val) => acc + val, 0)\<close>\<close>

definition reduce_sum :: "real list \<Rightarrow> real" where
  "reduce_sum xs = foldl (\<lambda>acc val. acc + val) 0 xs"

definition TRADING_DAYS_PER_YEAR :: real where
  "TRADING_DAYS_PER_YEAR = 252"

definition calculateMean :: "real list \<Rightarrow> real" where
  "calculateMean values =
     (if length values = 0 then 0 else reduce_sum values / real (length values))"

definition calculateStandardDeviation :: "real list \<Rightarrow> real" where
  "calculateStandardDeviation values =
     (if length values = 0 then 0
      else if length values = 1 then 0
      else (let mean = calculateMean values;
                variance = foldl (\<lambda>sum val. sum + (val - mean) ^ 2) 0 values
                             / (real (length values) - 1)
            in sqrt variance))"

definition calculateSharpeRatio :: "real list \<Rightarrow> real \<Rightarrow> ratio" where
  "calculateSharpeRatio returns riskFreeRate =
     (if length returns = 0 then Finite 0
      else (let annualizedRiskFreeRate = riskFreeRate / TRADING_DAYS_PER_YEAR;
                excessReturns = map (\<lambda>r. r - annualizedRiskFreeRate) returns;
                meanExcessReturn = calculateMean excessReturns;
                stdDev = calculateStandardDeviation excessReturns
            in if stdDev = 0 then (if meanExcessReturn > 0 then PosInfinity else Finite 0)
               else Finite ((meanExcessReturn * sqrt TRADING_DAYS_PER_YEAR)
                              / (stdDev * sqrt TRADING_DAYS_PER_YEAR))))"

definition calculateSortinoRatio :: "real list \<Rightarrow> real \<Rightarrow> ratio" where
  "calculateSortinoRatio returns riskFreeRate =
     (if length returns = 0 then Finite 0
      else (let annualizedRiskFreeRate = riskFreeRate / TRADING_DAYS_PER_YEAR;
                excessReturns = map (\<lambda>r. r - annualizedRiskFreeRate) returns;
                meanExcessReturn = calculateMean excessReturns;
                negativeExcessReturns = filter (\<lambda>r. r < 0) excessReturns
            in if length negativeExcessReturns = 0
               then (if meanExcessReturn > 0 then PosInfinity else Finite 0)
               else (let downsideVariance =
                           foldl (\<lambda>sum r. sum + r * r) 0 negativeExcessReturns
                             / real (length negativeExcessReturns);
                         downsideDeviation = sqrt downsideVariance
                     in if downsideDeviation = 0
                        then (if meanExcessReturn > 0 then PosInfinity else Finite 0)
                        else Finite ((meanExcessReturn * sqrt TRADING_DAYS_PER_YEAR)
                                       / (downsideDeviation * sqrt TRADING_DAYS_PER_YEAR)))))"

section \<open>Alert rule model (types/alerts.ts)\<close>

text \<open>
  A \<open>Date\<close> is a number of milliseconds, \<open>nat\<close>; \<open>new Date()\<close> reads a clock, which the
  functions below take as the argument \<open>now\<close>. Optional fields that no modelled function
  reads (\<open>timeframe\<close>, \<open>email\<close>, \<open>push\<close>) are left out. Where two interfaces share a field
  name, the fields of \<open>PriceAlert\<close> and \<open>TechnicalAlert\<close> keep the name and the others
  get a prefix.
\<close>

datatype price_alert_type = price_above | price_below | percent_change | volume_spike

datatype technical_alert_type =
  rsi_overbought | rsi_oversold | macd_crossover | support_break | resistance_break | volume_breakout

datatype operator = greater_than | less_than | equal_to

datatype priority = low | medium | high | critical

record condition =
  cond_value :: real
  cond_operator :: operator

record notification_settings =
  browser :: bool
  sound :: bool

record alert_metadata =
  currentPrice :: "real option"
  triggerPrice :: "real option"
  percentChange :: "real option"

text \<open>The fields that \<open>PriceAlert\<close> and \<open>TechnicalAlert\<close> have in common.\<close>

record Alert =
  alert_id :: string
  symbol :: string
  isActive :: bool
  isTriggered :: bool
  createdAt :: nat
  triggeredAt :: "nat option"
  notificationSettings :: notification_settings
  message :: string
  priority :: priority

record PriceAlert = Alert +
  alert_type :: price_alert_type
  condition :: condition
  metadata :: "alert_metadata option"

record technical_parameters =
  rsiLevel :: "real option"
  param_supportLevel :: "real option"
  param_resistanceLevel :: "real option"
  volumeMultiplier :: "real option"

record TechnicalAlert = Alert +
  technical_type :: technical_alert_type
  parameters :: technical_parameters

datatype notification_type = type_price | type_technical | type_news | type_system

record AlertNotification =
  notification_id :: string
  alertId :: string
  title :: string
  notification_message :: string
  notification_type :: notification_type
  notification_priority :: priority
  timestamp :: nat
  isRead :: bool

record settings =
  browserNotifications :: bool
  soundEnabled :: bool
  emailNotifications :: bool
  maxNotifications :: int

record AlertState =
  priceAlerts :: "PriceAlert list"
  technicalAlerts :: "TechnicalAlert list"
  notifications :: "AlertNotification list"
  settings :: settings

section \<open>Notification service (services/notificationService.ts)\<close>

text \<open>
  The service is a singleton object with three private fields. What it does to the
  outside world (a browser notification shown, a tone sequence played) is recorded in
  \<open>effects\<close>, in order. \<open>svc_audioContext\<close> says whether the audio context was created.
  The title of a shown notification is recorded without its leading pictograph.
\<close>

datatype notification_permission = permission_default | granted | denied

datatype sound_type = sound_info | sound_warning | sound_error | sound_success | sound_critical

datatype effect = Shown string | Played sound_type

record NotificationService =
  svc_audioContext :: bool
  svc_soundEnabled :: bool
  svc_notificationPermission :: notification_permission
  effects :: "effect list"

definition showNotification :: "NotificationService \<Rightarrow> string \<Rightarrow> NotificationService" where
  "showNotification svc ttl =
     (if svc_notificationPermission svc \<noteq> granted then svc
      else svc\<lparr>effects := effects svc @ [Shown ttl]\<rparr>)"

definition playAlertSound :: "NotificationService \<Rightarrow> sound_type \<Rightarrow> NotificationService" where
  "playAlertSound svc snd_type =
     (if \<not> svc_soundEnabled svc \<or> \<not> svc_audioContext svc then svc
      else svc\<lparr>effects := effects svc @ [Played snd_type]\<rparr>)"

text \<open>\<open>showPriceAlert(symbol, currentPrice, targetPrice, type)\<close>; \<open>is_above\<close> is \<open>type === 'above'\<close>.\<close>

definition showPriceAlert :: "NotificationService \<Rightarrow> string \<Rightarrow> real \<Rightarrow> real \<Rightarrow> bool \<Rightarrow> NotificationService" where
  "showPriceAlert svc symb current target is_above =
     (let svc1 = showNotification svc (symb @ '' Price Alert'')
      in playAlertSound svc1 (if is_above then sound_success else sound_warning))"

definition showTechnicalAlert :: "NotificationService \<Rightarrow> string \<Rightarrow> string \<Rightarrow> string \<Rightarrow> priority \<Rightarrow> NotificationService" where
  "showTechnicalAlert svc symb indicator msg prio =
     (let svc1 = showNotification svc (symb @ '' Technical Alert'')
      in playAlertSound svc1 (if prio = high then sound_warning else sound_info))"

definition setSoundEnabled :: "NotificationService \<Rightarrow> bool \<Rightarrow> NotificationService" where
  "setSoundEnabled svc enabled = svc\<lparr>svc_soundEnabled := enabled\<rparr>"

definition testNotification :: "NotificationService \<Rightarrow> NotificationService" where
  "testNotification svc = playAlertSound (showNotification svc ''Test Notification'') sound_info"

section \<open>Alert evaluator (utils/alertTriggers.ts)\<close>

record PriceData =
  pd_symbol :: string
  price :: real
  change :: real
  changePercent :: real
  volume :: real
  pd_high :: real
  pd_low :: real
  pd_timestamp :: nat

record macd_data =
  macd_macd :: real
  macd_signal :: real
  macd_histogram :: real

record TechnicalData =
  rsi :: "real option"
  td_macd :: "macd_data option"
  td_volume :: "real option"
  averageVolume :: "real option"
  supportLevel :: "real option"
  resistanceLevel :: "real option"

text \<open>The sound chosen from the priority of a rule, in both trigger functions.\<close>

definition soundType :: "priority \<Rightarrow> sound_type" where
  "soundType prio =
     (if prio = critical then sound_critical
      else if prio = high then sound_warning else sound_info)"

text \<open>
  \<open>triggerPriceAlert\<close> mutates the alert object it is given and calls the notification
  service; the model returns the alert and the service after the call.
\<close>

definition triggerPriceAlert :: "nat \<Rightarrow> PriceAlert \<Rightarrow> PriceData \<Rightarrow> NotificationService \<Rightarrow> PriceAlert \<times> NotificationService" where
  "triggerPriceAlert now alert priceData svc =
     (let ns = notificationSettings alert;
          alert1 = alert\<lparr>metadata := Some \<lparr>currentPrice = Some (price priceData),
                                             triggerPrice = Some (cond_value (condition alert)),
                                             percentChange = Some (changePercent priceData)\<rparr>\<rparr>;
          svc1 = (if browser ns then
                    (if alert_type alert = price_above \<or> alert_type alert = price_below
                     then showPriceAlert svc (symbol alert) (price priceData)
                            (cond_value (condition alert)) (alert_type alert = price_above)
                     else showNotification svc (symbol alert @ '' Alert''))
                  else svc);
          svc2 = (if sound ns then playAlertSound svc1 (soundType (priority alert)) else svc1)
      in (alert1\<lparr>isTriggered := True, triggeredAt := Some now\<rparr>, svc2))"

text \<open>
  \<open>checkPriceAlert\<close>: the returned triple is the boolean result, the alert object after
  the call and the notification service after the call.
\<close>

definition checkPriceAlert :: "nat \<Rightarrow> PriceAlert \<Rightarrow> PriceData \<Rightarrow> NotificationService \<Rightarrow> bool \<times> PriceAlert \<times> NotificationService" where
  "checkPriceAlert now alert priceData svc =
     (if \<not> isActive alert \<or> isTriggered alert then (False, alert, svc)
      else if symbol alert \<noteq> pd_symbol priceData then (False, alert, svc)
      else
        (let v = cond_value (condition alert);
             currentPrice = price priceData;
             shouldTrigger =
               (case alert_type alert of
                  price_above \<Rightarrow> currentPrice > v
                | price_below \<Rightarrow> currentPrice < v
                | percent_change \<Rightarrow>
                    (let absChange = \<bar>changePercent priceData\<bar>
                     in if cond_operator (condition alert) = greater_than
                        then absChange > v else absChange < v)
                | volume_spike \<Rightarrow>
                    (let volumeRatio = volume priceData / (volume priceData / v)
                     in volumeRatio \<ge> v))
         in if shouldTrigger
            then (let (alert', svc') = triggerPriceAlert now alert priceData svc
                  in (True, alert', svc'))
            else (False, alert, svc)))"

text \<open>\<open>alert.type.replace('_', ' ').toUpperCase()\<close>, the indicator name shown to the user.\<close>

definition indicator_name :: "technical_alert_type \<Rightarrow> string" where
  "indicator_name t =
     (case t of
        rsi_overbought \<Rightarrow> ''RSI OVERBOUGHT''
      | rsi_oversold \<Rightarrow> ''RSI OVERSOLD''
      | macd_crossover \<Rightarrow> ''MACD CROSSOVER''
      | support_break \<Rightarrow> ''SUPPORT BREAK''
      | resistance_break \<Rightarrow> ''RESISTANCE BREAK''
      | volume_breakout \<Rightarrow> ''VOLUME BREAKOUT'')"

definition triggerTechnicalAlert :: "nat \<Rightarrow> TechnicalAlert \<Rightarrow> TechnicalData \<Rightarrow> NotificationService \<Rightarrow> TechnicalAlert \<times> NotificationService" where
  "triggerTechnicalAlert now alert technicalData svc =
     (let ns = notificationSettings alert;
          svc1 = (if browser ns
                  then showTechnicalAlert svc (symbol alert)
                         (indicator_name (technical_type alert)) (message alert) (priority alert)
                  else svc);
          svc2 = (if sound ns then playAlertSound svc1 (soundType (priority alert)) else svc1)
      in (alert\<lparr>isTriggered := True, triggeredAt := Some now\<rparr>, svc2))"

text \<open>\<open>a ?? d\<close>\<close>

definition nullish :: "real option \<Rightarrow> real \<Rightarrow> real" where
  "nullish a d = (case a of None \<Rightarrow> d | Some x \<Rightarrow> x)"

text \<open>The truthiness of an optional number: present and not zero.\<close>

definition truthy :: "real option \<Rightarrow> bool" where
  "truthy a = (case a of None \<Rightarrow> False | Some x \<Rightarrow> x \<noteq> 0)"

definition checkTechnicalAlert :: "nat \<Rightarrow> TechnicalAlert \<Rightarrow> TechnicalData \<Rightarrow> NotificationService \<Rightarrow> bool \<times> TechnicalAlert \<times> NotificationService" where
  "checkTechnicalAlert now alert technicalData svc =
     (if \<not> isActive alert \<or> isTriggered alert then (False, alert, svc)
      else
        (let ps = parameters alert;
             shouldTrigger =
               (case technical_type alert of
                  rsi_overbought \<Rightarrow> nullish (rsi technicalData) 50 > nullish (rsiLevel ps) 70
                | rsi_oversold \<Rightarrow> nullish (rsi technicalData) 50 < nullish (rsiLevel ps) 30
                | macd_crossover \<Rightarrow>
                    (case td_macd technicalData of
                       None \<Rightarrow> False
                     | Some m \<Rightarrow> macd_macd m > macd_signal m)
                | support_break \<Rightarrow> nullish (supportLevel technicalData) 0 > 0
                | resistance_break \<Rightarrow> nullish (resistanceLevel technicalData) 0 > 0
                | volume_breakout \<Rightarrow>
                    (if truthy (td_volume technicalData) \<and> truthy (averageVolume technicalData)
                     then (let ratio = the (td_volume technicalData)
                                         / the (averageVolume technicalData)
                           in ratio \<ge> nullish (volumeMultiplier ps) 2)
                     else False))
         in if shouldTrigger
            then (let (alert', svc') = triggerTechnicalAlert now alert technicalData svc
                  in (True, alert', svc'))
            else (False, alert, svc)))"

text \<open>
  \<open>createAlertNotification\<close>; the generated \<open>id\<close> (clock and random suffix) is the
  argument \<open>fresh_id\<close>.
\<close>

definition createAlertNotification :: "string \<Rightarrow> nat \<Rightarrow> string \<Rightarrow> string \<Rightarrow> string \<Rightarrow> notification_type \<Rightarrow> priority \<Rightarrow> AlertNotification" where
  "createAlertNotification fresh_id now aid ttl msg ty prio =
     \<lparr> notification_id = fresh_id, alertId = aid, title = ttl, notification_message = msg,
       notification_type = ty, notification_priority = prio, timestamp = now, isRead = False \<rparr>"

section \<open>Alert store (hooks/useAlerts.ts)\<close>

text \<open>
  The hook keeps an \<open>AlertState\<close> and calls the singleton notification service. A state
  update \<open>setAlerts(prev => ...)\<close> is a function from the previous state to the next one.
  News alerts are not modelled: no function below reads them.
\<close>

definition initial_state :: AlertState where
  "initial_state =
     \<lparr> priceAlerts = [], technicalAlerts = [], notifications = [],
       settings = \<lparr> browserNotifications = True, soundEnabled = True,
                    emailNotifications = False, maxNotifications = 50 \<rparr> \<rparr>"

text \<open>
  The service as its constructor leaves it: sound enabled, no effect yet. \<open>perm\<close> is the
  answer to the permission request and \<open>audio\<close> says whether the audio context exists.
\<close>

definition new_service :: "notification_permission \<Rightarrow> bool \<Rightarrow> NotificationService" where
  "new_service perm audio =
     \<lparr> svc_audioContext = audio, svc_soundEnabled = True,
       svc_notificationPermission = perm, effects = [] \<rparr>"

text \<open>The state update made when a price alert has fired (and the one for a technical alert).\<close>

definition price_alert_fired :: "AlertNotification \<Rightarrow> string \<Rightarrow> nat \<Rightarrow> AlertState \<Rightarrow> AlertState" where
  "price_alert_fired notification aid now prev =
     prev\<lparr> notifications :=
             notification # slice (notifications prev) 0 (maxNotifications (settings prev) - 1),
           priceAlerts :=
             map (\<lambda>a. if alert_id a = aid then a\<lparr>isTriggered := True, triggeredAt := Some now\<rparr>
                       else a)
                 (priceAlerts prev) \<rparr>"

definition technical_alert_fired :: "AlertNotification \<Rightarrow> string \<Rightarrow> nat \<Rightarrow> AlertState \<Rightarrow> AlertState" where
  "technical_alert_fired notification aid now prev =
     prev\<lparr> notifications :=
             notification # slice (notifications prev) 0 (maxNotifications (settings prev) - 1),
           technicalAlerts :=
             map (\<lambda>a. if alert_id a = aid then a\<lparr>isTriggered := True, triggeredAt := Some now\<rparr>
                       else a)
                 (technicalAlerts prev) \<rparr>"

text \<open>
  The body of \<open>alerts.priceAlerts.forEach\<close> for the alert at index \<open>i\<close> and one price.
  \<open>checkPriceAlert\<close> mutates the alert object, which the state shares, so the alert is
  written back at its index before the state update runs.
\<close>

definition check_price_alert_at :: "nat \<Rightarrow> string \<Rightarrow> PriceData \<Rightarrow> AlertState \<times> NotificationService \<Rightarrow> nat \<Rightarrow> AlertState \<times> NotificationService" where
  "check_price_alert_at now fresh_id realTimePrice w i =
     (let st = fst w; svc = snd w; alert = priceAlerts st ! i
      in if symbol alert = pd_symbol realTimePrice \<and> isActive alert
         then (let res = checkPriceAlert now alert realTimePrice svc;
                   alert' = fst (snd res);
                   svc' = snd (snd res);
                   st1 = st\<lparr>priceAlerts := (priceAlerts st)[i := alert']\<rparr>
               in if fst res
                  then (price_alert_fired
                          (createAlertNotification fresh_id now (alert_id alert')
                             (symbol alert' @ '' Price Alert'') (message alert')
                             type_price (priority alert'))
                          (alert_id alert') now st1, svc')
                  else (st1, svc'))
         else w)"

definition check_price_alerts :: "nat \<Rightarrow> (nat \<Rightarrow> string) \<Rightarrow> PriceData \<Rightarrow> AlertState \<times> NotificationService \<Rightarrow> AlertState \<times> NotificationService" where
  "check_price_alerts now fresh_ids realTimePrice w =
     foldl (\<lambda>w' i. check_price_alert_at now (fresh_ids i) realTimePrice w' i) w
       [0..<length (priceAlerts (fst w))]"

definition clearTriggeredAlerts :: "AlertState \<Rightarrow> AlertState" where
  "clearTriggeredAlerts prev =
     prev\<lparr> priceAlerts := filter (\<lambda>alert. \<not> isTriggered alert) (priceAlerts prev),
           technicalAlerts := filter (\<lambda>alert. \<not> isTriggered alert) (technicalAlerts prev) \<rparr>"

definition testAlert :: "string \<Rightarrow> nat \<Rightarrow> AlertState \<times> NotificationService \<Rightarrow> AlertState \<times> NotificationService" where
  "testAlert fresh_id now w =
     (let svc' = testNotification (snd w);
          testNotification' =
            createAlertNotification fresh_id now ''test'' ''Test Alert''
              ''This is a test alert to verify your notification settings.''
              type_system low
      in ((fst w)\<lparr>notifications := testNotification' # notifications (fst w)\<rparr>, svc'))"

text \<open>A \<open>Partial<AlertState['settings']>\<close>: \<open>None\<close> is a key that is absent.\<close>

record settings_update =
  new_browserNotifications :: "bool option"
  new_soundEnabled :: "bool option"
  new_emailNotifications :: "bool option"
  new_maxNotifications :: "int option"

text \<open>\<open>{ ...prev.settings, ...newSettings }\<close>\<close>

definition merge_settings :: "settings \<Rightarrow> settings_update \<Rightarrow> settings" where
  "merge_settings old newSettings =
     \<lparr> browserNotifications =
         (case new_browserNotifications newSettings of None \<Rightarrow> browserNotifications old | Some b \<Rightarrow> b),
       soundEnabled =
         (case new_soundEnabled newSettings of None \<Rightarrow> soundEnabled old | Some b \<Rightarrow> b),
       emailNotifications =
         (case new_emailNotifications newSettings of None \<Rightarrow> emailNotifications old | Some b \<Rightarrow> b),
       maxNotifications =
         (case new_maxNotifications newSettings of None \<Rightarrow> maxNotifications old | Some n \<Rightarrow> n) \<rparr>"

definition updateSettings :: "settings_update \<Rightarrow> AlertState \<times> NotificationService \<Rightarrow> AlertState \<times> NotificationService" where
  "updateSettings newSettings w =
     ((fst w)\<lparr>settings := merge_settings (settings (fst w)) newSettings\<rparr>,
      (case new_soundEnabled newSettings of
         None \<Rightarrow> snd w
       | Some enabled \<Rightarrow> setSoundEnabled (snd w) enabled))"


section \<open>Concrete rules, ticks and states\<close>

text \<open>A price rule for AAPL, active and untriggered, with both notification channels on.\<close>

definition aapl_rule :: "price_alert_type \<Rightarrow> real \<Rightarrow> PriceAlert" where
  "aapl_rule ty v =
     \<lparr> alert_id = ''price_1'', symbol = ''AAPL'', isActive = True, isTriggered = False,
       createdAt = 0, triggeredAt = None,
       notificationSettings = \<lparr> browser = True, sound = True \<rparr>,
       message = ''AAPL alert'', priority = medium,
       alert_type = ty, condition = \<lparr> cond_value = v, cond_operator = greater_than \<rparr>,
       metadata = None \<rparr>"

text \<open>A tick for AAPL with the given price and volume.\<close>

definition aapl_tick :: "real \<Rightarrow> real \<Rightarrow> PriceData" where
  "aapl_tick p vol =
     \<lparr> pd_symbol = ''AAPL'', price = p, change = 1, changePercent = 1, volume = vol,
       pd_high = p, pd_low = p, pd_timestamp = 1000 \<rparr>"

text \<open>A technical rule for AAPL, and a snapshot that carries only an RSI value.\<close>

definition aapl_technical_rule :: "technical_alert_type \<Rightarrow> TechnicalAlert" where
  "aapl_technical_rule ty =
     \<lparr> alert_id = ''technical_1'', symbol = ''AAPL'', isActive = True, isTriggered = False,
       createdAt = 0, triggeredAt = None,
       notificationSettings = \<lparr> browser = True, sound = True \<rparr>,
       message = ''AAPL technical alert'', priority = medium,
       technical_type = ty,
       parameters = \<lparr> rsiLevel = None, param_supportLevel = None,
                      param_resistanceLevel = None, volumeMultiplier = None \<rparr> \<rparr>"

definition rsi_snapshot :: "real \<Rightarrow> TechnicalData" where
  "rsi_snapshot r =
     \<lparr> rsi = Some r, td_macd = None, td_volume = None, averageVolume = None,
       supportLevel = None, resistanceLevel = None \<rparr>"



text \<open>A notification numbered \<open>k\<close>, and a state that holds two of them under a cap of 2.\<close>

definition sample_notification :: "nat \<Rightarrow> AlertNotification" where
  "sample_notification k = createAlertNotification (replicate k CHR ''n'') k ''price_1'' ''AAPL Price Alert''
              ''AAPL alert'' type_price medium"

definition full_state :: AlertState where
  "full_state =
     initial_state\<lparr> notifications := [sample_notification 2, sample_notification 1],
                    settings := (settings initial_state)\<lparr>maxNotifications := 2\<rparr> \<rparr>"

section \<open>Facts about the array helpers\<close>

lemma slice_in_range:
  assumes "0 \<le> s" "s \<le> e" "e \<le> int (length xs)"
  shows "slice xs s e = take (nat (e - s)) (drop (nat s) xs)"
  using assms by (simp add: slice_def Let_def min_def)

lemma slice_replicate:
  assumes "0 \<le> s" "s \<le> e" "e \<le> int n"
  shows "slice (replicate n c) s e = replicate (nat (e - s)) c"
proof -
  have "nat (e - s) \<le> n - nat s" using assms by linarith
  then show ?thesis using assms by (simp add: slice_in_range min_def)
qed

lemma sum_list_replicate_real: "sum_list (replicate n (c::real)) = real n * c"
  by (induction n) (simp_all add: algebra_simps)

lemma push_loop_map:
  "foldl (\<lambda>r i. r @ [f i]) acc [a..<b] = acc @ map f [a..<b]"
proof (induction b arbitrary: acc)
  case 0
  show ?case by simp
next
  case (Suc b)
  show ?case
  proof (cases "a \<le> b")
    case True
    then show ?thesis using Suc by simp
  next
    case False
    then show ?thesis by simp
  qed
qed

section \<open>Facts about double arithmetic\<close>

lemma fl_zero: "fl 0 = 0"
  by (simp add: fl_def)

lemma representableI:
  assumes "fl y = y" and "\<bar>y\<bar> < 2 ^ 1024"
  shows "representable y"
  using assms by (auto simp: representable_def round_num_def Let_def)

lemma representable_zero: "representable 0"
  by (rule representableI) (simp_all add: fl_zero)

lemma fadd_exact: "representable (x + y) \<Longrightarrow> fadd (Num x) (Num y) = Num (x + y)"
  by (simp add: representable_def)

lemma fmul_exact: "representable (x * y) \<Longrightarrow> fmul (Num x) (Num y) = Num (x * y)"
  by (simp add: representable_def)

lemma fdiv_exact: "y \<noteq> 0 \<Longrightarrow> representable (x / y) \<Longrightarrow> fdiv (Num x) (Num y) = Num (x / y)"
  by (simp add: representable_def)

lemma fsub_exact: "representable (x - y) \<Longrightarrow> fsub (Num x) (Num y) = Num (x - y)"
  by (simp add: fsub_def representable_def)

lemma fsub_self: "fsub (Num x) (Num x) = Num 0"
  using representable_zero by (simp add: fsub_def representable_def)

text \<open>A sum whose partial sums are all representable is computed without error.\<close>

lemma reduce_add_exact:
  assumes "\<forall>k. 1 \<le> k \<and> k \<le> length ws \<longrightarrow> representable (sum_list (take k ws))"
  shows "reduce_add (map Num ws) = Num (sum_list ws)"
  using assms
proof (induction ws rule: rev_induct)
  case Nil
  show ?case by (simp add: reduce_add_def)
next
  case (snoc w ws)
  have "\<forall>k. 1 \<le> k \<and> k \<le> length ws \<longrightarrow> representable (sum_list (take k ws))"
  proof (intro allI impI)
    fix k assume k: "1 \<le> k \<and> k \<le> length ws"
    then have "1 \<le> k \<and> k \<le> length (ws @ [w])" by simp
    then have "representable (sum_list (take k (ws @ [w])))" using snoc.prems by blast
    moreover have "take k (ws @ [w]) = take k ws" using k by simp
    ultimately show "representable (sum_list (take k ws))" by simp
  qed
  then have ih: "reduce_add (map Num ws) = Num (sum_list ws)" by (rule snoc.IH)
  have "1 \<le> length (ws @ [w]) \<and> length (ws @ [w]) \<le> length (ws @ [w])" by simp
  then have "representable (sum_list (take (length (ws @ [w])) (ws @ [w])))"
    using snoc.prems by blast
  then have r: "representable (sum_list ws + w)" by simp
  have "reduce_add (map Num (ws @ [w])) = fadd (reduce_add (map Num ws)) (Num w)"
    by (simp add: reduce_add_def)
  also have "\<dots> = fadd (Num (sum_list ws)) (Num w)" by (simp only: ih)
  also have "\<dots> = Num (sum_list ws + w)" using r by (rule fadd_exact)
  finally show ?case by simp
qed

lemma reduce_add_replicate:
  assumes "\<forall>k. 1 \<le> k \<and> k \<le> n \<longrightarrow> representable (real k * c)"
  shows "reduce_add (replicate n (Num c)) = Num (real n * c)"
proof -
  have "\<forall>k. 1 \<le> k \<and> k \<le> length (replicate n c) \<longrightarrow>
          representable (sum_list (take k (replicate n c)))"
    using assms by (simp add: sum_list_replicate_real min_def)
  then have "reduce_add (map Num (replicate n c)) = Num (sum_list (replicate n c))"
    by (rule reduce_add_exact)
  then show ?thesis by (simp add: sum_list_replicate_real)
qed

section \<open>Evaluating double arithmetic\<close>

text \<open>
  The doubles that the examples below need: small integers and \<open>1 / 2\<close> are
  representable; \<open>11 / 3\<close> and \<open>1 / 10\<close> are not, and the double written \<open>0.1\<close> is
  \<open>3602879701896397 / 2 ^ 55\<close>. The sum of three of them is rounded up at the third
  addition, and a third of that sum is the double after \<open>0.1\<close>.
\<close>

lemma representable_1: "representable 1"
  unfolding representable_def round_num_def fl_def Let_def
  by (simp add: floor_log2_def bit_length.simps; simp add: pow2_def round_half_even_def Let_def)

lemma representable_2: "representable 2"
  unfolding representable_def round_num_def fl_def Let_def
  by (simp add: floor_log2_def bit_length.simps; simp add: pow2_def round_half_even_def Let_def)

lemma representable_3: "representable 3"
  unfolding representable_def round_num_def fl_def Let_def
  by (simp add: floor_log2_def bit_length.simps; simp add: pow2_def round_half_even_def Let_def)

lemma representable_4: "representable 4"
  unfolding representable_def round_num_def fl_def Let_def
  by (simp add: floor_log2_def bit_length.simps; simp add: pow2_def round_half_even_def Let_def)

lemma representable_5: "representable 5"
  unfolding representable_def round_num_def fl_def Let_def
  by (simp add: floor_log2_def bit_length.simps; simp add: pow2_def round_half_even_def Let_def)

lemma representable_6: "representable 6"
  unfolding representable_def round_num_def fl_def Let_def
  by (simp add: floor_log2_def bit_length.simps; simp add: pow2_def round_half_even_def Let_def)

lemma representable_10: "representable 10"
  unfolding representable_def round_num_def fl_def Let_def
  by (simp add: floor_log2_def bit_length.simps; simp add: pow2_def round_half_even_def Let_def)

lemma representable_11: "representable 11"
  unfolding representable_def round_num_def fl_def Let_def
  by (simp add: floor_log2_def bit_length.simps; simp add: pow2_def round_half_even_def Let_def)

lemma representable_15: "representable 15"
  unfolding representable_def round_num_def fl_def Let_def
  by (simp add: floor_log2_def bit_length.simps; simp add: pow2_def round_half_even_def Let_def)

lemma representable_20: "representable 20"
  unfolding representable_def round_num_def fl_def Let_def
  by (simp add: floor_log2_def bit_length.simps; simp add: pow2_def round_half_even_def Let_def)

lemma representable_30: "representable 30"
  unfolding representable_def round_num_def fl_def Let_def
  by (simp add: floor_log2_def bit_length.simps; simp add: pow2_def round_half_even_def Let_def)

lemma representable_half: "representable (1 / 2)"
  unfolding representable_def round_num_def fl_def Let_def
  by (simp add: floor_log2_def bit_length.simps; simp add: pow2_def round_half_even_def Let_def)

lemma round_11_3: "round_num (11 / 3) = Num (8256599316845909 / 2251799813685248)"
  unfolding round_num_def fl_def Let_def
  by (simp add: floor_log2_def bit_length.simps; simp add: pow2_def round_half_even_def Let_def)

text \<open>The double written \<open>0.1\<close>, and what adding it three times and dividing by 3 gives.\<close>

lemma round_tenth: "round_num (1 / 10) = Num (3602879701896397 / 36028797018963968)"
  unfolding round_num_def fl_def Let_def
  by (simp add: floor_log2_def bit_length.simps; simp add: pow2_def round_half_even_def Let_def)

lemma round_tenth_1:
  "round_num (3602879701896397 / 36028797018963968)
   = Num (3602879701896397 / 36028797018963968)"
  unfolding round_num_def fl_def Let_def
  by (simp add: floor_log2_def bit_length.simps; simp add: pow2_def round_half_even_def Let_def)

lemma round_tenth_2:
  "round_num (3602879701896397 / 18014398509481984)
   = Num (3602879701896397 / 18014398509481984)"
  unfolding round_num_def fl_def Let_def
  by (simp add: floor_log2_def bit_length.simps; simp add: pow2_def round_half_even_def Let_def)

lemma round_tenth_3:
  "round_num (10808639105689191 / 36028797018963968)
   = Num (1351079888211149 / 4503599627370496)"
  unfolding round_num_def fl_def Let_def
  by (simp add: floor_log2_def bit_length.simps; simp add: pow2_def round_half_even_def Let_def)

lemma sum3_tenth:
  "reduce_add [Num (3602879701896397 / 36028797018963968),
               Num (3602879701896397 / 36028797018963968),
               Num (3602879701896397 / 36028797018963968)]
   = Num (1351079888211149 / 4503599627370496)"
  by (simp add: reduce_add_def round_tenth_1 round_tenth_2 round_tenth_3)

lemma round_tenth_4:
  "round_num (1351079888211149 / 13510798882111488)
   = Num (7205759403792795 / 72057594037927936)"
  unfolding round_num_def fl_def Let_def
  by (simp add: floor_log2_def bit_length.simps; simp add: pow2_def round_half_even_def Let_def)

lemma div3_tenth:
  "fdiv (Num (1351079888211149 / 4503599627370496)) (Num 3)
   = Num (7205759403792795 / 72057594037927936)"
  by (simp add: round_tenth_4)

section \<open>calculateSMA: windows and means\<close>

lemma calculateSMA_map:
  "calculateSMA data period =
     map (\<lambda>i. if int i < period - 1 then None
               else Some (fdiv (reduce_add (slice data (int i - period + 1) (int i + 1)))
                            (Num (real_of_int period))))
         [0..<length data]"
proof -
  have "sma_step data period =
          (\<lambda>r i. r @ [if int i < period - 1 then None
                       else Some (fdiv (reduce_add (slice data (int i - period + 1) (int i + 1)))
                                    (Num (real_of_int period)))])"
    by (intro ext) (simp add: sma_step_def Let_def)
  then show ?thesis
    unfolding calculateSMA_def by (simp add: push_loop_map)
qed

lemma length_calculateSMA: "length (calculateSMA data period) = length data"
  by (simp add: calculateSMA_map)

lemma calculateSMA_nth:
  assumes "i < length data"
  shows "calculateSMA data period ! i =
           (if int i < period - 1 then None
            else Some (fdiv (reduce_add (slice data (int i - period + 1) (int i + 1)))
                         (Num (real_of_int period))))"
  using assms by (simp add: calculateSMA_map)

lemma sma_window:
  assumes "1 \<le> period" and "i < length data" and "period - 1 \<le> int i"
  shows "slice data (int i - period + 1) (int i + 1)
           = take (nat period) (drop (i + 1 - nat period) data)"
proof -
  have "slice data (int i - period + 1) (int i + 1)
          = take (nat (int i + 1 - (int i - period + 1)))
              (drop (nat (int i - period + 1)) data)"
    using assms by (intro slice_in_range) simp_all
  moreover have "nat (int i + 1 - (int i - period + 1)) = nat period" by simp
  moreover have "nat (int i - period + 1) = i + 1 - nat period"
    using assms by linarith
  ultimately show ?thesis by simp
qed

lemma calculateSMA_window:
  assumes "1 \<le> period" and "i < length data" and "period - 1 \<le> int i"
  shows "calculateSMA data period ! i =
           Some (fdiv (reduce_add (take (nat period) (drop (i + 1 - nat period) data)))
                   (Num (real_of_int period)))"
  using assms by (simp add: calculateSMA_nth sma_window)

lemma calculateSMA_exact_mean:
  assumes "1 \<le> period" and "i < length data" and "period - 1 \<le> int i"
    and w: "take (nat period) (drop (i + 1 - nat period) data) = map Num ws"
    and sums: "\<forall>k. 1 \<le> k \<and> k \<le> length ws \<longrightarrow> representable (sum_list (take k ws))"
    and mean: "representable (sum_list ws / real (length ws))"
  shows "calculateSMA data period ! i = Some (Num (sum_list ws / real (length ws)))"
proof -
  have "length (take (nat period) (drop (i + 1 - nat period) data)) = nat period"
    using assms(1-3) by simp
  then have len: "length ws = nat period" using w by (metis length_map)
  then have p: "real (length ws) = real_of_int period" "real_of_int period \<noteq> 0"
    using assms(1) by simp_all
  have "reduce_add (map Num ws) = Num (sum_list ws)"
    using sums by (rule reduce_add_exact)
  moreover have "fdiv (Num (sum_list ws)) (Num (real_of_int period))
                   = Num (sum_list ws / real_of_int period)"
    using p mean by (intro fdiv_exact) simp_all
  ultimately show ?thesis
    using calculateSMA_window [OF assms(1-3)] w p by simp
qed

lemma calculateSMA_replicate:
  assumes "1 \<le> period" and "i < n" and "period - 1 \<le> int i"
    and "\<forall>k. 1 \<le> k \<and> k \<le> nat period \<longrightarrow> representable (real k * c)"
  shows "calculateSMA (replicate n (Num c)) period ! i = Some (Num c)"
proof -
  have i: "i < length (replicate n (Num c))" using assms(2) by simp
  have np: "nat period \<le> n - (i + 1 - nat period)" using assms(1-3) by linarith
  have w: "take (nat period) (drop (i + 1 - nat period) (replicate n (Num c)))
             = map Num (replicate (nat period) c)"
    using np by (simp add: min_def)
  have len: "length (replicate (nat period) c) = nat period" by simp
  have sums: "\<forall>k. 1 \<le> k \<and> k \<le> length (replicate (nat period) c) \<longrightarrow>
                 representable (sum_list (take k (replicate (nat period) c)))"
    using assms(4) by (simp add: sum_list_replicate_real min_def)
  have "1 \<le> nat period \<and> nat period \<le> nat period" using assms(1) by simp
  then have "representable (real 1 * c)" using assms(4) assms(1)
    by (metis One_nat_def le_refl nat_1 nat_mono)
  then have c: "representable c" by simp
  have "sum_list (replicate (nat period) c) / real (length (replicate (nat period) c)) = c"
    using assms(1) by (simp add: sum_list_replicate_real)
  then have mean: "representable (sum_list (replicate (nat period) c)
                                   / real (length (replicate (nat period) c)))"
    using c by simp
  have "calculateSMA (replicate n (Num c)) period ! i
          = Some (Num (sum_list (replicate (nat period) c)
                         / real (length (replicate (nat period) c))))"
    using assms(1) i assms(3) w sums mean by (rule calculateSMA_exact_mean)
  then show ?thesis using assms(1) by (simp add: sum_list_replicate_real)
qed

text \<open>
  C9, amended. For a series of doubles at least as long as the period (a window length,
  so at least 1), \<open>calculateSMA\<close> returns a series of the same length; it is \<open>null\<close> at
  the positions \<open>0 .. period - 2\<close>; at a position \<open>i \<ge> period - 1\<close> it is the mean of the
  \<open>period\<close> values \<open>data[i - period + 1 .. i]\<close> as double arithmetic computes it: the
  window summed from 0 left to right, then divided by \<open>period\<close>, every operation rounded.
  That is the exact arithmetic mean whenever the partial sums of the window and the mean
  are representable; so the SMA of a constant series \<open>c\<close> is \<open>c\<close> at every defined
  position whenever \<open>k * c\<close> is representable for \<open>k = 1 .. period\<close>.
\<close>

theorem calculateSMA_spec:
  assumes "1 \<le> period" and "period \<le> int (length data)"
  shows "length (calculateSMA data period) = length data
         \<and> (\<forall>i < length data. int i < period - 1 \<longrightarrow> calculateSMA data period ! i = None)
         \<and> (\<forall>i < length data. period - 1 \<le> int i \<longrightarrow>
               length (take (nat period) (drop (i + 1 - nat period) data)) = nat period
               \<and> calculateSMA data period ! i =
                   Some (fdiv (reduce_add (take (nat period) (drop (i + 1 - nat period) data)))
                           (Num (real_of_int period))))
         \<and> (\<forall>i < length data. \<forall>ws.
               period - 1 \<le> int i
               \<and> take (nat period) (drop (i + 1 - nat period) data) = map Num ws
               \<and> (\<forall>k. 1 \<le> k \<and> k \<le> length ws \<longrightarrow> representable (sum_list (take k ws)))
               \<and> representable (sum_list ws / real (length ws)) \<longrightarrow>
               calculateSMA data period ! i = Some (Num (sum_list ws / real (length ws))))
         \<and> (\<forall>c. data = replicate (length data) (Num c)
               \<and> (\<forall>k. 1 \<le> k \<and> k \<le> nat period \<longrightarrow> representable (real k * c)) \<longrightarrow>
               (\<forall>i < length data. period - 1 \<le> int i \<longrightarrow>
                  calculateSMA data period ! i = Some (Num c)))"
proof (intro conjI allI impI)
  show "length (calculateSMA data period) = length data"
    by (rule length_calculateSMA)
next
  fix i assume "i < length data" "int i < period - 1"
  then show "calculateSMA data period ! i = None"
    by (simp add: calculateSMA_nth)
next
  fix i assume i: "i < length data" "period - 1 \<le> int i"
  then show "length (take (nat period) (drop (i + 1 - nat period) data)) = nat period"
    using assms by simp
next
  fix i assume i: "i < length data" "period - 1 \<le> int i"
  show "calculateSMA data period ! i =
          Some (fdiv (reduce_add (take (nat period) (drop (i + 1 - nat period) data)))
                  (Num (real_of_int period)))"
    using assms(1) i by (rule calculateSMA_window)
next
  fix i ws
  assume i: "i < length data"
    and h: "period - 1 \<le> int i
            \<and> take (nat period) (drop (i + 1 - nat period) data) = map Num ws
            \<and> (\<forall>k. 1 \<le> k \<and> k \<le> length ws \<longrightarrow> representable (sum_list (take k ws)))
            \<and> representable (sum_list ws / real (length ws))"
  show "calculateSMA data period ! i = Some (Num (sum_list ws / real (length ws)))"
    using assms(1) i h by (intro calculateSMA_exact_mean) blast+
next
  fix c i
  assume c: "data = replicate (length data) (Num c)
             \<and> (\<forall>k. 1 \<le> k \<and> k \<le> nat period \<longrightarrow> representable (real k * c))"
    and i: "i < length data" "period - 1 \<le> int i"
  have "calculateSMA (replicate (length data) (Num c)) period ! i = Some (Num c)"
    using assms(1) i c by (intro calculateSMA_replicate) blast+
  then show "calculateSMA data period ! i = Some (Num c)" using c by simp
qed

text \<open>
  The amended C9 at the series \<open>[1, 2, 3, 6]\<close> with period 3, where the last mean,
  \<open>11 / 3\<close>, is rounded to 3.6666666666666665, and at the constant series
  \<open>[10, 10, 10]\<close>.
\<close>

theorem calculateSMA_spec_witness:
  "calculateSMA [Num 1, Num 2, Num 3, Num 6] 3
     = [None, None, Some (Num 2), Some (Num (8256599316845909 / 2251799813685248))]
   \<and> calculateSMA [Num 10, Num 10, Num 10] 3 ! 2 = Some (Num 10)"
proof -
  let ?d = "[Num 1, Num 2, Num 3, Num 6]"
  have p: "(1::int) \<le> 3" "(3::int) \<le> int (length ?d)" by simp_all
  note s = calculateSMA_spec [OF p]
  note s1 = s [THEN conjunct1]
  note s2 = s [THEN conjunct2, THEN conjunct1, rule_format]
  note s3 = s [THEN conjunct2, THEN conjunct2, THEN conjunct1, rule_format, THEN conjunct2]
  note s4 = s [THEN conjunct2, THEN conjunct2, THEN conjunct2, THEN conjunct1, rule_format]
  have len: "length (calculateSMA ?d 3) = 4" using s1 by simp
  have n0: "calculateSMA ?d 3 ! 0 = None" by (rule s2) simp_all
  have n1: "calculateSMA ?d 3 ! 1 = None" by (rule s2) simp_all
  have sums: "\<forall>k. 1 \<le> k \<and> k \<le> length [1, 2, 3 :: real] \<longrightarrow>
                 representable (sum_list (take k [1, 2, 3 :: real]))"
  proof (intro allI impI)
    fix k :: nat assume "1 \<le> k \<and> k \<le> length [1, 2, 3 :: real]"
    then have "k = 1 \<or> k = 2 \<or> k = 3" by auto
    then show "representable (sum_list (take k [1, 2, 3 :: real]))"
      using representable_1 representable_3 representable_6 by (auto simp: numeral_eq_Suc)
  qed
  have mean: "representable (sum_list [1, 2, 3 :: real] / real (length [1, 2, 3 :: real]))"
    using representable_2 by simp
  have "calculateSMA ?d 3 ! 2
          = Some (Num (sum_list [1, 2, 3 :: real] / real (length [1, 2, 3 :: real])))"
  proof (rule s4)
    show "2 < length ?d" by simp
    show "3 - 1 \<le> int 2
          \<and> take (nat 3) (drop (2 + 1 - nat 3) ?d) = map Num [1, 2, 3]
          \<and> (\<forall>k. 1 \<le> k \<and> k \<le> length [1, 2, 3 :: real] \<longrightarrow>
                representable (sum_list (take k [1, 2, 3 :: real])))
          \<and> representable (sum_list [1, 2, 3 :: real] / real (length [1, 2, 3 :: real]))"
      using sums mean by simp
  qed
  then have v2: "calculateSMA ?d 3 ! 2 = Some (Num 2)" by simp
  have w3: "take (nat 3) (drop (3 + 1 - nat 3) ?d) = [Num 2, Num 3, Num 6]" by simp
  have r3: "reduce_add [Num 2, Num 3, Num 6] = Num 11"
    using representable_2 representable_5 representable_11
    by (simp add: reduce_add_def representable_def)
  have "calculateSMA ?d 3 ! 3
          = Some (fdiv (reduce_add (take (nat 3) (drop (3 + 1 - nat 3) ?d))) (Num (real_of_int 3)))"
    by (rule s3) simp_all
  then have v3: "calculateSMA ?d 3 ! 3 = Some (Num (8256599316845909 / 2251799813685248))"
    by (simp only: w3 r3) (simp add: round_11_3)
  have a: "calculateSMA ?d 3
             = [None, None, Some (Num 2), Some (Num (8256599316845909 / 2251799813685248))]"
  proof (rule nth_equalityI)
    show "length (calculateSMA ?d 3)
            = length [None, None, Some (Num 2), Some (Num (8256599316845909 / 2251799813685248))]"
      using len by simp
    fix i assume "i < length (calculateSMA ?d 3)"
    then have "i = 0 \<or> i = 1 \<or> i = 2 \<or> i = 3" using len by auto
    then show "calculateSMA ?d 3 ! i
                 = [None, None, Some (Num 2), Some (Num (8256599316845909 / 2251799813685248))] ! i"
      using n0 n1 v2 v3 by auto
  qed
  let ?c = "[Num 10, Num 10, Num 10]"
  have q: "(1::int) \<le> 3" "(3::int) \<le> int (length ?c)" by simp_all
  note t = calculateSMA_spec [OF q, THEN conjunct2, THEN conjunct2, THEN conjunct2,
      THEN conjunct2, rule_format]
  have k: "\<forall>k. 1 \<le> k \<and> k \<le> nat 3 \<longrightarrow> representable (real k * 10)"
  proof (intro allI impI)
    fix k :: nat assume "1 \<le> k \<and> k \<le> nat 3"
    then have "k = 1 \<or> k = 2 \<or> k = 3" by auto
    then show "representable (real k * 10)"
      using representable_10 representable_20 representable_30 by auto
  qed
  have b: "calculateSMA ?c 3 ! 2 = Some (Num 10)"
  proof (rule t)
    show "?c = replicate (length ?c) (Num 10)
          \<and> (\<forall>k. 1 \<le> k \<and> k \<le> nat 3 \<longrightarrow> representable (real k * 10))"
      using k by (simp add: numeral_eq_Suc)
    show "2 < length ?c" by simp
    show "3 - 1 \<le> int 2" by simp
  qed
  show ?thesis using a b by simp
qed

text \<open>
  C9, as stated, fails on the constant series of the double written \<open>0.1\<close>, which is
  \<open>7205759403792794 / 2 ^ 56\<close>: the sum of three of them is rounded up, and
  \<open>calculateSMA([0.1, 0.1, 0.1], 3)[2]\<close> is \<open>7205759403792795 / 2 ^ 56\<close>, the next
  double, 0.10000000000000002.
\<close>

theorem calculateSMA_constant_counterexample:
  "round_num (1 / 10) = Num (7205759403792794 / 72057594037927936)
   \<and> calculateSMA [round_num (1 / 10), round_num (1 / 10), round_num (1 / 10)] 3 ! 2
       = Some (Num (7205759403792795 / 72057594037927936))"
proof -
  have "calculateSMA [round_num (1 / 10), round_num (1 / 10), round_num (1 / 10)] 3 ! 2
          = Some (fdiv (reduce_add (slice [round_num (1 / 10), round_num (1 / 10),
                                          round_num (1 / 10)] (int 2 - 3 + 1) (int 2 + 1)))
                    (Num (real_of_int 3)))"
    by (simp add: calculateSMA_nth)
  moreover have "slice [round_num (1 / 10), round_num (1 / 10), round_num (1 / 10)]
                   (int 2 - 3 + 1) (int 2 + 1)
                 = [round_num (1 / 10), round_num (1 / 10), round_num (1 / 10)]"
    by (simp add: slice_def)
  ultimately show ?thesis
    by (simp add: round_tenth sum3_tenth round_tenth_4)
qed

section \<open>calculateEMA: seeding and recurrence\<close>

lemma ema_step_push:
  "\<exists>v. ema_step data period result i = result @ [v]"
  by (simp add: ema_step_def Let_def split: option.split)

lemma length_ema_loop:
  "length (foldl (ema_step data period) [] [0..<k]) = k"
proof (induction k)
  case 0
  show ?case by simp
next
  case (Suc k)
  obtain v where "ema_step data period (foldl (ema_step data period) [] [0..<k]) k
                    = foldl (ema_step data period) [] [0..<k] @ [v]"
    using ema_step_push by blast
  then show ?case using Suc by simp
qed

lemma length_calculateEMA: "length (calculateEMA data period) = length data"
  by (simp add: calculateEMA_def length_ema_loop)

lemma ema_loop_prefix:
  "k \<le> m \<Longrightarrow> take k (foldl (ema_step data period) [] [0..<m])
                 = foldl (ema_step data period) [] [0..<k]"
proof (induction m)
  case 0
  then show ?case by simp
next
  case (Suc m)
  obtain v where v: "ema_step data period (foldl (ema_step data period) [] [0..<m]) m
                    = foldl (ema_step data period) [] [0..<m] @ [v]"
    using ema_step_push by blast
  show ?case
  proof (cases "k = Suc m")
    case True
    then show ?thesis using length_ema_loop [of data period "Suc m"] by simp
  next
    case False
    then have "k \<le> m" using Suc.prems by simp
    then show ?thesis using Suc.IH v by (simp add: length_ema_loop)
  qed
qed

lemma ema_loop_nth:
  assumes "i < k"
  shows "foldl (ema_step data period) [] [0..<k] ! i
           = ema_step data period (foldl (ema_step data period) [] [0..<i]) i ! i"
proof -
  have "foldl (ema_step data period) [] [0..<k] ! i
          = take (Suc i) (foldl (ema_step data period) [] [0..<k]) ! i"
    by simp
  also have "\<dots> = foldl (ema_step data period) [] [0..<Suc i] ! i"
    using assms by (simp add: ema_loop_prefix del: foldl.simps upt_Suc)
  finally show ?thesis by simp
qed

lemma ema_loop_defined:
  "i < k \<Longrightarrow> foldl (ema_step data period) [] [0..<k] ! i \<noteq> None"
proof (induction i arbitrary: k rule: less_induct)
  case (less i)
  let ?r = "foldl (ema_step data period) [] [0..<i]"
  have len: "length ?r = i" by (rule length_ema_loop)
  have "ema_step data period ?r i ! i \<noteq> None"
  proof (cases "i = 0 \<or> int i < period - 1")
    case True
    then show ?thesis using len by (auto simp: ema_step_def Let_def nth_append)
  next
    case False
    then have "i - 1 < i" by simp
    then have "?r ! (i - 1) \<noteq> None" using less.IH by blast
    then obtain prev where "?r ! (i - 1) = Some prev" by blast
    then show ?thesis using False len by (simp add: ema_step_def Let_def nth_append)
  qed
  then show ?case using less.prems by (simp add: ema_loop_nth)
qed

lemma calculateEMA_nth:
  assumes "i < length data"
  shows "calculateEMA data period ! i =
           (if i = 0 then Some (data ! 0)
            else if int i < period - 1
              then Some (fdiv (reduce_add (slice data 0 (int i + 1))) (Num (real i + 1)))
            else (case calculateEMA data period ! (i - 1) of
                    Some prevEMA \<Rightarrow>
                      Some (fadd (fmul (data ! i)
                                    (fdiv (Num 2) (fadd (Num (real_of_int period)) (Num 1))))
                              (fmul prevEMA
                                 (fsub (Num 1)
                                    (fdiv (Num 2) (fadd (Num (real_of_int period)) (Num 1))))))
                  | None \<Rightarrow> None))"
proof -
  let ?r = "foldl (ema_step data period) [] [0..<i]"
  have len: "length ?r = i" by (rule length_ema_loop)
  have a: "calculateEMA data period ! i = ema_step data period ?r i ! i"
    using assms by (simp add: calculateEMA_def ema_loop_nth)
  show ?thesis
  proof (cases "i = 0 \<or> int i < period - 1")
    case True
    then show ?thesis using a len by (auto simp: ema_step_def Let_def nth_append)
  next
    case False
    then have "i - 1 < length data" "i - 1 < i" using assms by simp_all
    then have "calculateEMA data period ! (i - 1) = ?r ! (i - 1)"
      using ema_loop_prefix [of i "length data" data period] assms
      by (metis calculateEMA_def less_imp_le_nat nth_take)
    then show ?thesis using a len False
      by (simp add: ema_step_def Let_def nth_append split: option.split)
  qed
qed

text \<open>
  One iteration on a constant series, when the values pushed so far are all \<open>c\<close>: the
  running sums up to this index are exact, and at a recurrence index the recurrence
  gives \<open>c\<close> back.
\<close>

lemma ema_step_const:
  assumes "k < n"
    and seeds: "\<forall>j. 1 \<le> j \<and> j \<le> n \<and> int j < period \<longrightarrow> representable (real j * c)"
    and step: "0 < k \<and> period - 1 \<le> int k \<longrightarrow>
                 fadd (fmul (Num c) (fdiv (Num 2) (fadd (Num (real_of_int period)) (Num 1))))
                      (fmul (Num c)
                         (fsub (Num 1) (fdiv (Num 2) (fadd (Num (real_of_int period)) (Num 1)))))
                 = Num c"
  shows "ema_step (replicate n (Num c)) period (replicate k (Some (Num c))) k
           = replicate (Suc k) (Some (Num c))"
proof -
  have app: "replicate k (Some (Num c)) @ [Some (Num c)] = replicate (Suc k) (Some (Num c))"
    by (simp add: replicate_append_same)
  show ?thesis
  proof (cases "k = 0")
    case True
    then show ?thesis using assms(1) by (simp add: ema_step_def)
  next
    case False
    show ?thesis
    proof (cases "int k < period - 1")
      case True
      have sl: "slice (replicate n (Num c)) 0 (int k + 1) = replicate (Suc k) (Num c)"
      proof -
        have "slice (replicate n (Num c)) 0 (int k + 1)
                = replicate (nat (int k + 1 - 0)) (Num c)"
          using assms(1) by (intro slice_replicate) simp_all
        moreover have "nat (int k + 1 - 0) = Suc k" by simp
        ultimately show ?thesis by simp
      qed
      have "\<forall>j. 1 \<le> j \<and> j \<le> Suc k \<longrightarrow> representable (real j * c)"
        using seeds assms(1) True by auto
      then have sum: "reduce_add (replicate (Suc k) (Num c)) = Num (real (Suc k) * c)"
        by (rule reduce_add_replicate)
      have "1 \<le> (1::nat) \<and> (1::nat) \<le> n \<and> int 1 < period"
        using assms(1) True False by auto
      then have "representable (real 1 * c)" using seeds by blast
      then have c: "representable c" by simp
      have "real (Suc k) \<noteq> 0" by simp
      moreover have "real (Suc k) * c / real (Suc k) = c" by simp
      ultimately have "fdiv (Num (real (Suc k) * c)) (Num (real (Suc k))) = Num c"
        using c fdiv_exact [of "real (Suc k)" "real (Suc k) * c"] by simp
      then have mean: "fdiv (reduce_add (replicate (Suc k) (Num c))) (Num (real k + 1)) = Num c"
        using sum by (simp add: add.commute)
      show ?thesis
        using False True
        by (simp add: ema_step_def Let_def sl mean app del: replicate_Suc)
    next
      case r: False
      have prev: "replicate k (Some (Num c)) ! (k - 1) = Some (Num c)"
        using False by simp
      have dat: "replicate n (Num c) ! k = Num c" using assms(1) by simp
      have st: "fadd (fmul (Num c) (fdiv (Num 2) (fadd (Num (real_of_int period)) (Num 1))))
                     (fmul (Num c)
                        (fsub (Num 1) (fdiv (Num 2) (fadd (Num (real_of_int period)) (Num 1)))))
                = Num c"
        using step False r by simp
      show ?thesis
        unfolding ema_step_def Let_def
        using False r by (simp only: prev dat st app if_False option.case)
    qed
  qed
qed

lemma ema_loop_const:
  assumes "k \<le> n"
    and seeds: "\<forall>j. 1 \<le> j \<and> j \<le> n \<and> int j < period \<longrightarrow> representable (real j * c)"
    and step: "(\<exists>i. 0 < i \<and> i < n \<and> period - 1 \<le> int i) \<longrightarrow>
                 fadd (fmul (Num c) (fdiv (Num 2) (fadd (Num (real_of_int period)) (Num 1))))
                      (fmul (Num c)
                         (fsub (Num 1) (fdiv (Num 2) (fadd (Num (real_of_int period)) (Num 1)))))
                 = Num c"
  shows "foldl (ema_step (replicate n (Num c)) period) [] [0..<k] = replicate k (Some (Num c))"
  using assms(1)
proof (induction k)
  case 0
  show ?case by simp
next
  case (Suc k)
  then have ih: "foldl (ema_step (replicate n (Num c)) period) [] [0..<k]
                   = replicate k (Some (Num c))"
    and k: "k < n" by simp_all
  have "0 < k \<and> period - 1 \<le> int k \<longrightarrow>
          fadd (fmul (Num c) (fdiv (Num 2) (fadd (Num (real_of_int period)) (Num 1))))
               (fmul (Num c)
                  (fsub (Num 1) (fdiv (Num 2) (fadd (Num (real_of_int period)) (Num 1)))))
          = Num c"
    using step k by blast
  then have "ema_step (replicate n (Num c)) period (replicate k (Some (Num c))) k
               = replicate (Suc k) (Some (Num c))"
    using k seeds by (intro ema_step_const) simp_all
  then show ?case using ih by (simp del: replicate_Suc)
qed

lemma calculateEMA_replicate:
  assumes "\<forall>j. 1 \<le> j \<and> j \<le> n \<and> int j < period \<longrightarrow> representable (real j * c)"
    and "(\<exists>i. 0 < i \<and> i < n \<and> period - 1 \<le> int i) \<longrightarrow>
           fadd (fmul (Num c) (fdiv (Num 2) (fadd (Num (real_of_int period)) (Num 1))))
                (fmul (Num c)
                   (fsub (Num 1) (fdiv (Num 2) (fadd (Num (real_of_int period)) (Num 1)))))
           = Num c"
  shows "calculateEMA (replicate n (Num c)) period = replicate n (Some (Num c))"
  unfolding calculateEMA_def using ema_loop_const [OF le_refl assms] by simp

lemma calculateEMA_defined:
  assumes "i < length data"
  shows "calculateEMA data period ! i \<noteq> None"
  using assms by (simp add: calculateEMA_def ema_loop_defined)

text \<open>
  C8, amended. For a period of at least 1, the EMA of a constant series \<open>[c, ..., c]\<close> of
  doubles is \<open>c\<close> at every position whenever the seed sums \<open>k * c\<close> for \<open>1 \<le> k < period\<close>
  are representable and one step of the recurrence, \<open>c * k + c * (1 - k)\<close> with
  \<open>k = 2 / (period + 1)\<close> in double arithmetic, gives \<open>c\<close> back. The seeding rule holds
  for every series: position 0 is the raw value, a position below \<open>period - 1\<close> is the
  sum of the values up to it divided by their number, and every later position is
  \<open>data[i] * k + ema[i - 1] * (1 - k)\<close>, every operation rounded; no position is \<open>null\<close>.
\<close>

theorem calculateEMA_constant:
  assumes "1 \<le> period"
  shows "((\<forall>k. 1 \<le> k \<and> int k < period \<longrightarrow> representable (real k * c))
          \<and> fadd (fmul (Num c) (fdiv (Num 2) (fadd (Num (real_of_int period)) (Num 1))))
                 (fmul (Num c)
                    (fsub (Num 1) (fdiv (Num 2) (fadd (Num (real_of_int period)) (Num 1)))))
              = Num c
          \<longrightarrow> calculateEMA (replicate n (Num c)) period = replicate n (Some (Num c)))
         \<and> (\<forall>i < length data.
               calculateEMA data period ! i \<noteq> None
               \<and> calculateEMA data period ! i =
                   (if i = 0 then Some (data ! 0)
                    else if int i < period - 1
                      then Some (fdiv (reduce_add (take (i + 1) data)) (Num (real i + 1)))
                    else map_option
                           (\<lambda>prev. fadd (fmul (data ! i)
                                            (fdiv (Num 2) (fadd (Num (real_of_int period)) (Num 1))))
                                      (fmul prev
                                         (fsub (Num 1)
                                            (fdiv (Num 2)
                                               (fadd (Num (real_of_int period)) (Num 1))))))
                           (calculateEMA data period ! (i - 1))))"
proof (intro conjI allI impI)
  assume h: "(\<forall>k. 1 \<le> k \<and> int k < period \<longrightarrow> representable (real k * c))
          \<and> fadd (fmul (Num c) (fdiv (Num 2) (fadd (Num (real_of_int period)) (Num 1))))
                 (fmul (Num c)
                    (fsub (Num 1) (fdiv (Num 2) (fadd (Num (real_of_int period)) (Num 1)))))
              = Num c"
  show "calculateEMA (replicate n (Num c)) period = replicate n (Some (Num c))"
    using h by (intro calculateEMA_replicate) blast+
next
  fix i assume "i < length data"
  then show "calculateEMA data period ! i \<noteq> None"
    by (rule calculateEMA_defined)
next
  fix i assume i: "i < length data"
  have "slice data 0 (int i + 1) = take (i + 1) data"
  proof -
    have "slice data 0 (int i + 1) = take (nat (int i + 1 - 0)) (drop (nat 0) data)"
      using i by (intro slice_in_range) simp_all
    moreover have "nat (int i + 1 - 0) = i + 1" by simp
    ultimately show ?thesis by simp
  qed
  then show "calculateEMA data period ! i =
               (if i = 0 then Some (data ! 0)
                else if int i < period - 1
                  then Some (fdiv (reduce_add (take (i + 1) data)) (Num (real i + 1)))
                else map_option
                       (\<lambda>prev. fadd (fmul (data ! i)
                                        (fdiv (Num 2) (fadd (Num (real_of_int period)) (Num 1))))
                                  (fmul prev
                                     (fsub (Num 1)
                                        (fdiv (Num 2)
                                           (fadd (Num (real_of_int period)) (Num 1))))))
                       (calculateEMA data period ! (i - 1)))"
    using calculateEMA_nth [OF i, of period]
    by (simp split: option.split)
qed

text \<open>
  The amended C8 at the series \<open>[10, 10, 10, 10, 10]\<close> with period 3: the seed sums 10
  and 20 are representable, \<open>k\<close> is 0.5 and \<open>10 * 0.5 + 10 * 0.5\<close> is 10.
\<close>

theorem calculateEMA_constant_witness:
  "calculateEMA [Num 10, Num 10, Num 10, Num 10, Num 10] 3
     = [Some (Num 10), Some (Num 10), Some (Num 10), Some (Num 10), Some (Num 10)]"
proof -
  have r: "replicate 5 x = [x, x, x, x, x]" for x :: 'a
    by (simp add: numeral_eq_Suc)
  have seeds: "\<forall>k. 1 \<le> k \<and> int k < 3 \<longrightarrow> representable (real k * 10)"
  proof (intro allI impI)
    fix k :: nat assume "1 \<le> k \<and> int k < 3"
    then have "k = 1 \<or> k = 2" by auto
    then show "representable (real k * 10)"
      using representable_10 representable_20 by auto
  qed
  have step: "fadd (fmul (Num 10) (fdiv (Num 2) (fadd (Num (real_of_int 3)) (Num 1))))
                   (fmul (Num 10)
                      (fsub (Num 1) (fdiv (Num 2) (fadd (Num (real_of_int 3)) (Num 1)))))
              = Num 10"
    using representable_4 representable_half representable_5 representable_10
    by (simp add: representable_def fsub_def)
  have "(1::int) \<le> 3" by simp
  from calculateEMA_constant [OF this, THEN conjunct1, rule_format, of 10 5] seeds step
  show ?thesis by (simp only: r)
qed

text \<open>
  The recurrence for period 4 on the double written \<open>0.1\<close>: \<open>k\<close> is the double written
  \<open>0.4\<close>, and the roundings of \<open>1 - k\<close>, of the two products and of their sum.
\<close>

lemma round_ema_m:
  "round_num (2 / 5) = Num (3602879701896397 / 9007199254740992)"
  unfolding round_num_def fl_def Let_def
  by (simp add: floor_log2_def bit_length.simps; simp add: pow2_def round_half_even_def Let_def)

lemma round_ema_one_minus_m:
  "round_num (5404319552844595 / 9007199254740992) = Num (5404319552844595 / 9007199254740992)"
  unfolding round_num_def fl_def Let_def
  by (simp add: floor_log2_def bit_length.simps; simp add: pow2_def round_half_even_def Let_def)

lemma round_ema_d_times_m:
  "round_num (12980742146337070512478121581609 / 324518553658426726783156020576256) = Num (1441151880758559 / 36028797018963968)"
  unfolding round_num_def fl_def Let_def
  by (simp add: floor_log2_def bit_length.simps; simp add: pow2_def round_half_even_def Let_def)

lemma round_ema_prev_times:
  "round_num (38942226439011213338874215693025 / 649037107316853453566312041152512) = Num (4323455642275677 / 72057594037927936)"
  unfolding round_num_def fl_def Let_def
  by (simp add: floor_log2_def bit_length.simps; simp add: pow2_def round_half_even_def Let_def)

lemma round_ema_sum:
  "round_num (7205759403792795 / 72057594037927936) = Num (7205759403792795 / 72057594037927936)"
  unfolding round_num_def fl_def Let_def
  by (simp add: floor_log2_def bit_length.simps; simp add: pow2_def round_half_even_def Let_def)

text \<open>
  C8, as stated, fails on the constant series of the double written \<open>0.1\<close> with period
  4: \<open>calculateEMA([0.1, 0.1, 0.1, 0.1, 0.1], 4)\<close> is 0.1 at the positions 0 and 1 and
  the next double, 0.10000000000000002, from position 2 on.
\<close>

theorem calculateEMA_constant_counterexample:
  "round_num (1 / 10) = Num (7205759403792794 / 72057594037927936)
   \<and> calculateEMA [round_num (1 / 10), round_num (1 / 10), round_num (1 / 10),
                    round_num (1 / 10), round_num (1 / 10)] 4
       = [Some (Num (7205759403792794 / 72057594037927936)),
          Some (Num (7205759403792794 / 72057594037927936)),
          Some (Num (7205759403792795 / 72057594037927936)),
          Some (Num (7205759403792795 / 72057594037927936)),
          Some (Num (7205759403792795 / 72057594037927936))]"
proof -
  let ?t = "Num (3602879701896397 / 36028797018963968)"
  let ?u = "Num (7205759403792795 / 72057594037927936)"
  let ?d = "[?t, ?t, ?t, ?t, ?t]"
  have len: "length (calculateEMA ?d 4) = 5" by (simp add: length_calculateEMA)
  have i0: "(0::nat) < length ?d" and i1: "(1::nat) < length ?d" and i2: "(2::nat) < length ?d"
    and i3: "(3::nat) < length ?d" and i4: "(4::nat) < length ?d"
    by simp_all
  have v0: "calculateEMA ?d 4 ! 0 = Some ?t"
    using calculateEMA_nth [OF i0, of 4] by simp
  have "slice ?d 0 (int 1 + 1) = [?t, ?t]" by (simp add: slice_def)
  then have v1: "calculateEMA ?d 4 ! 1 = Some ?t"
    using calculateEMA_nth [OF i1, of 4]
    by (simp add: reduce_add_def round_tenth_1 round_tenth_2)
  have "slice ?d 0 (int 2 + 1) = [?t, ?t, ?t]" by (simp add: slice_def)
  then have v2: "calculateEMA ?d 4 ! 2 = Some ?u"
    using calculateEMA_nth [OF i2, of 4]
    by (simp add: sum3_tenth round_tenth_4)
  note ev = representable_5 [unfolded representable_def] round_ema_m round_ema_one_minus_m
    round_ema_d_times_m round_ema_prev_times round_ema_sum fsub_def
  have v3: "calculateEMA ?d 4 ! 3 = Some ?u"
    using calculateEMA_nth [OF i3, of 4] v2 by (simp add: ev)
  have v4: "calculateEMA ?d 4 ! 4 = Some ?u"
    using calculateEMA_nth [OF i4, of 4] v3 by (simp add: ev)
  have "calculateEMA ?d 4 = [Some ?t, Some ?t, Some ?u, Some ?u, Some ?u]"
  proof (rule nth_equalityI)
    show "length (calculateEMA ?d 4) = length [Some ?t, Some ?t, Some ?u, Some ?u, Some ?u]"
      using len by simp
    fix i assume "i < length (calculateEMA ?d 4)"
    then have "i = 0 \<or> i = 1 \<or> i = 2 \<or> i = 3 \<or> i = 4" using len by auto
    then show "calculateEMA ?d 4 ! i = [Some ?t, Some ?t, Some ?u, Some ?u, Some ?u] ! i"
      using v0 v1 v2 v3 v4 by auto
  qed
  then show ?thesis by (simp add: round_tenth)
qed

section \<open>Periods that are not window lengths\<close>

text \<open>
  With period 0 the window of \<open>calculateSMA\<close> is empty and the mean is \<open>0 / 0\<close>, which is
  \<open>NaN\<close>. With period -1 the multiplier of \<open>calculateEMA\<close> is \<open>2 / 0\<close>, which is
  \<open>Infinity\<close>, and the recurrence adds \<open>Infinity\<close> and \<open>-Infinity\<close>.
\<close>

lemma calculateSMA_period_zero:
  "calculateSMA [Num 1, Num 2] 0 = [Some NaN, Some NaN]"
  by (simp add: calculateSMA_def sma_step_def slice_def reduce_add_def signed_infinity_def)

lemma calculateEMA_period_minus_one:
  "calculateEMA [Num 1, Num 2, Num 3] (- 1) = [Some (Num 1), Some NaN, Some NaN]"
  using representable_zero
  by (simp add: calculateEMA_def ema_step_def Let_def signed_infinity_def fsub_def
      numeral_eq_Suc representable_def)

section \<open>The triggered latch\<close>

lemma checkPriceAlert_triggered:
  "isTriggered alert \<Longrightarrow> checkPriceAlert now alert priceData svc = (False, alert, svc)"
  by (simp add: checkPriceAlert_def)

lemma checkTechnicalAlert_triggered:
  "isTriggered alert \<Longrightarrow> checkTechnicalAlert now alert technicalData svc = (False, alert, svc)"
  by (simp add: checkTechnicalAlert_def)

lemma check_price_alert_at_triggered:
  assumes "isTriggered (priceAlerts st ! i)"
  shows "check_price_alert_at now fresh_id realTimePrice (st, svc) i = (st, svc)"
  using assms by (simp add: check_price_alert_at_def Let_def checkPriceAlert_triggered)

text \<open>
  C1. A price rule or a technical rule whose triggered flag is true is evaluated to
  \<open>false\<close> against every tick or snapshot; the call leaves the rule (so its triggered
  flag) and the notification service (so its log of effects) as they were. The same holds
  along any sequence of later evaluations, and the store's handler adds no notification
  for such a rule.
\<close>

theorem triggered_latch:
  assumes "isTriggered pa" and "isTriggered ta"
  shows "checkPriceAlert now pa priceData svc = (False, pa, svc)
         \<and> checkTechnicalAlert now ta technicalData svc = (False, ta, svc)
         \<and> foldl (\<lambda>w tick. snd (checkPriceAlert (fst tick) (fst w) (snd tick) (snd w)))
               (pa, svc) ticks = (pa, svc)
         \<and> foldl (\<lambda>w snap. snd (checkTechnicalAlert (fst snap) (fst w) (snd snap) (snd w)))
               (ta, svc) snaps = (ta, svc)
         \<and> (priceAlerts st ! i = pa \<longrightarrow>
              check_price_alert_at now fresh_id priceData (st, svc) i = (st, svc))"
proof (intro conjI impI)
  show "checkPriceAlert now pa priceData svc = (False, pa, svc)"
    using assms(1) by (rule checkPriceAlert_triggered)
  show "checkTechnicalAlert now ta technicalData svc = (False, ta, svc)"
    using assms(2) by (rule checkTechnicalAlert_triggered)
  show "foldl (\<lambda>w tick. snd (checkPriceAlert (fst tick) (fst w) (snd tick) (snd w)))
          (pa, svc) ticks = (pa, svc)"
    using assms(1) by (induction ticks) (simp_all add: checkPriceAlert_triggered)
  show "foldl (\<lambda>w snap. snd (checkTechnicalAlert (fst snap) (fst w) (snd snap) (snd w)))
          (ta, svc) snaps = (ta, svc)"
    using assms(2) by (induction snaps) (simp_all add: checkTechnicalAlert_triggered)
next
  assume "priceAlerts st ! i = pa"
  then show "check_price_alert_at now fresh_id priceData (st, svc) i = (st, svc)"
    using assms(1) by (simp add: check_price_alert_at_triggered)
qed

text \<open>C1 at a triggered price rule, a triggered technical rule and a store that holds the former.\<close>

theorem triggered_latch_witness:
  "checkPriceAlert 2000 ((aapl_rule price_above 150)\<lparr>isTriggered := True\<rparr>)
       (aapl_tick 151 100) (new_service granted True)
     = (False, (aapl_rule price_above 150)\<lparr>isTriggered := True\<rparr>, new_service granted True)
   \<and> checkTechnicalAlert 2000 ((aapl_technical_rule rsi_overbought)\<lparr>isTriggered := True\<rparr>)
       (rsi_snapshot 80) (new_service granted True)
     = (False, (aapl_technical_rule rsi_overbought)\<lparr>isTriggered := True\<rparr>,
        new_service granted True)
   \<and> foldl (\<lambda>w tick. snd (checkPriceAlert (fst tick) (fst w) (snd tick) (snd w)))
       ((aapl_rule price_above 150)\<lparr>isTriggered := True\<rparr>, new_service granted True)
       [(2000, aapl_tick 151 100), (3000, aapl_tick 149 100), (4000, aapl_tick 152 100)]
     = ((aapl_rule price_above 150)\<lparr>isTriggered := True\<rparr>, new_service granted True)
   \<and> foldl (\<lambda>w snap. snd (checkTechnicalAlert (fst snap) (fst w) (snd snap) (snd w)))
       ((aapl_technical_rule rsi_overbought)\<lparr>isTriggered := True\<rparr>, new_service granted True)
       [(2000, rsi_snapshot 80), (3000, rsi_snapshot 90)]
     = ((aapl_technical_rule rsi_overbought)\<lparr>isTriggered := True\<rparr>, new_service granted True)
   \<and> check_price_alert_at 2000 ''n'' (aapl_tick 151 100)
       (initial_state\<lparr>priceAlerts := [(aapl_rule price_above 150)\<lparr>isTriggered := True\<rparr>]\<rparr>,
        new_service granted True) 0
     = (initial_state\<lparr>priceAlerts := [(aapl_rule price_above 150)\<lparr>isTriggered := True\<rparr>]\<rparr>,
        new_service granted True)"
proof -
  have p: "isTriggered ((aapl_rule price_above 150)\<lparr>isTriggered := True\<rparr>)"
    and t: "isTriggered ((aapl_technical_rule rsi_overbought)\<lparr>isTriggered := True\<rparr>)"
    by simp_all
  have s: "priceAlerts (initial_state\<lparr>priceAlerts :=
                          [(aapl_rule price_above 150)\<lparr>isTriggered := True\<rparr>]\<rparr>) ! 0
             = (aapl_rule price_above 150)\<lparr>isTriggered := True\<rparr>"
    by simp
  from triggered_latch [OF p t, of 2000 "aapl_tick 151 100" "new_service granted True"
      "rsi_snapshot 80"
      "[(2000, aapl_tick 151 100), (3000, aapl_tick 149 100), (4000, aapl_tick 152 100)]"
      "[(2000, rsi_snapshot 80), (3000, rsi_snapshot 90)]"
      "initial_state\<lparr>priceAlerts := [(aapl_rule price_above 150)\<lparr>isTriggered := True\<rparr>]\<rparr>"
      0 "''n''"] s
  show ?thesis by blast
qed

section \<open>Price rule kinds\<close>

text \<open>
  C10. For an active, untriggered percent-change price rule whose operator is
  \<open>less_than\<close> and a tick for the rule's symbol, the evaluation returns \<open>true\<close> exactly when
  the absolute percent change is strictly less than the rule's value.
\<close>

theorem percent_change_less_than:
  assumes "isActive alert" and "\<not> isTriggered alert"
    and "symbol alert = pd_symbol priceData"
    and "alert_type alert = percent_change"
    and "cond_operator (condition alert) = less_than"
  shows "fst (checkPriceAlert now alert priceData svc)
           = (\<bar>changePercent priceData\<bar> < cond_value (condition alert))"
  using assms
  by (simp add: checkPriceAlert_def Let_def split_beta)

text \<open>C10 at a rule with value 5: a change of 1 percent fires it, a change of -7 percent does not.\<close>

theorem percent_change_less_than_witness:
  "fst (checkPriceAlert 1000
          ((aapl_rule percent_change 5)\<lparr>condition := \<lparr>cond_value = 5, cond_operator = less_than\<rparr>\<rparr>)
          (aapl_tick 151 100) (new_service granted True))
   \<and> \<not> fst (checkPriceAlert 1000
          ((aapl_rule percent_change 5)\<lparr>condition := \<lparr>cond_value = 5, cond_operator = less_than\<rparr>\<rparr>)
          ((aapl_tick 151 100)\<lparr>changePercent := - 7\<rparr>) (new_service granted True))"
proof -
  let ?r = "(aapl_rule percent_change 5)\<lparr>condition := \<lparr>cond_value = 5, cond_operator = less_than\<rparr>\<rparr>"
  have r: "isActive ?r" "\<not> isTriggered ?r" "alert_type ?r = percent_change"
    "cond_operator (condition ?r) = less_than" "cond_value (condition ?r) = 5"
    "symbol ?r = ''AAPL''"
    by (simp_all add: aapl_rule_def)
  have t: "pd_symbol (aapl_tick 151 100) = ''AAPL''" "changePercent (aapl_tick 151 100) = 1"
    "pd_symbol ((aapl_tick 151 100)\<lparr>changePercent := - 7\<rparr>) = ''AAPL''"
    by (simp_all add: aapl_tick_def)
  show ?thesis
    using percent_change_less_than [of ?r "aapl_tick 151 100" 1000 "new_service granted True"]
      percent_change_less_than [of ?r "(aapl_tick 151 100)\<lparr>changePercent := - 7\<rparr>" 1000
        "new_service granted True"] r t
    by simp
qed

text \<open>
  C2. The volume-spike branch divides the tick's volume by \<open>volume / value\<close>, not by an
  average volume, so the ratio it compares with the multiplier is the multiplier itself.
  A rule with multiplier 2 fires on a tick of volume 100, although against the average
  volume that the store uses for technical rules (0.8 times the volume) the ratio is 1.25.
\<close>

theorem volume_spike_fires_below_multiplier:
  "fst (checkPriceAlert 1000 (aapl_rule volume_spike 2) (aapl_tick 151 100)
          (new_service granted True))
   \<and> \<not> (volume (aapl_tick 151 100) / (volume (aapl_tick 151 100) * 0.8)
          \<ge> cond_value (condition (aapl_rule volume_spike 2)))"
  by (simp add: checkPriceAlert_def aapl_rule_def aapl_tick_def Let_def split_beta)

text \<open>C2 at the same tick: the rule with multiplier 2 has fired.\<close>

theorem volume_spike_fires_below_multiplier_witness:
  "fst (checkPriceAlert 1000 (aapl_rule volume_spike 2) (aapl_tick 151 100)
          (new_service granted True))"
  using volume_spike_fires_below_multiplier by (rule conjunct1)

section \<open>The notification service and what the evaluator does to it\<close>





lemma triggerPriceAlert_alert:
  "fst (triggerPriceAlert now alert priceData svc) =
     alert\<lparr> isTriggered := True, triggeredAt := Some now,
            metadata := Some \<lparr>currentPrice = Some (price priceData),
                              triggerPrice = Some (cond_value (condition alert)),
                              percentChange = Some (changePercent priceData)\<rparr> \<rparr>"
  by (simp add: triggerPriceAlert_def Let_def)


lemma checkPriceAlert_cases:
  "checkPriceAlert now alert priceData svc = (False, alert, svc)
   \<or> checkPriceAlert now alert priceData svc
        = (True, fst (triggerPriceAlert now alert priceData svc),
           snd (triggerPriceAlert now alert priceData svc))"
  by (simp add: checkPriceAlert_def Let_def split_beta)







lemma updateSettings_frame:
  "svc_audioContext (snd (updateSettings u w)) = svc_audioContext (snd w)
   \<and> svc_notificationPermission (snd (updateSettings u w)) = svc_notificationPermission (snd w)
   \<and> effects (snd (updateSettings u w)) = effects (snd w)"
  by (cases "new_soundEnabled u") (simp_all add: updateSettings_def setSoundEnabled_def)

lemma aapl_fire:
  "checkPriceAlert 1000 (aapl_rule price_above 150) (aapl_tick 151 100) svc
   = (True,
      (aapl_rule price_above 150)\<lparr> isTriggered := True, triggeredAt := Some 1000,
          metadata := Some \<lparr>currentPrice = Some 151, triggerPrice = Some 150,
                             percentChange = Some 1\<rparr> \<rparr>,
      snd (triggerPriceAlert 1000 (aapl_rule price_above 150) (aapl_tick 151 100) svc))"
proof -
  have "fst (checkPriceAlert 1000 (aapl_rule price_above 150) (aapl_tick 151 100) svc)"
    by (simp add: checkPriceAlert_def aapl_rule_def aapl_tick_def Let_def split_beta)
  then have "checkPriceAlert 1000 (aapl_rule price_above 150) (aapl_tick 151 100) svc
               = (True, fst (triggerPriceAlert 1000 (aapl_rule price_above 150) (aapl_tick 151 100) svc),
                  snd (triggerPriceAlert 1000 (aapl_rule price_above 150) (aapl_tick 151 100) svc))"
    using checkPriceAlert_cases [of 1000 "aapl_rule price_above 150" "aapl_tick 151 100" svc]
    by auto
  moreover have "fst (triggerPriceAlert 1000 (aapl_rule price_above 150) (aapl_tick 151 100) svc)
                   = (aapl_rule price_above 150)\<lparr> isTriggered := True, triggeredAt := Some 1000,
                        metadata := Some \<lparr>currentPrice = Some 151, triggerPrice = Some 150,
                                           percentChange = Some 1\<rparr> \<rparr>"
    unfolding triggerPriceAlert_alert by (simp add: aapl_rule_def aapl_tick_def)
  ultimately show ?thesis by simp
qed


section \<open>calculateMACD: the signal at index 0\<close>

text \<open>
  For every non-empty series both EMAs start at \<open>data[0]\<close>, so the MACD line at index 0
  is \<open>data[0] - data[0]\<close>: 0 for a finite value, \<open>NaN\<close> otherwise. The signal EMA starts
  with the same value, which \<open>|| null\<close> turns into \<open>null\<close>.
\<close>

lemma fsub_self_falsy: "or_null (Some (fsub x x)) = None"
  by (cases x) (simp_all add: fsub_self or_null_def, simp_all add: fsub_def)

lemma macd_first_signal_dropped:
  assumes "data \<noteq> []"
  shows "macd (calculateMACD data fastPeriod slowPeriod signalPeriod ! 0)
           = Some (fsub (data ! 0) (data ! 0))
         \<and> (\<forall>v. data ! 0 = Num v \<longrightarrow>
               macd (calculateMACD data fastPeriod slowPeriod signalPeriod ! 0) = Some (Num 0))
         \<and> signal (calculateMACD data fastPeriod slowPeriod signalPeriod ! 0) = None"
proof -
  obtain x xs where d: "data = x # xs" using assms by (cases data) auto
  have e0: "calculateEMA data p ! 0 = Some x" for p
    using calculateEMA_nth [of 0 data p] d by simp
  have "0 < length data" using assms by simp
  then have up: "[0..<length data] = 0 # [Suc 0..<length data]"
    by (rule upt_conv_Cons)
  have ml: "macd_line (calculateEMA data fastPeriod) (calculateEMA data slowPeriod) (length data)
              = Some (fsub x x) # map (\<lambda>i. case calculateEMA data fastPeriod ! i of
                 None \<Rightarrow> None
               | Some f \<Rightarrow> (case calculateEMA data slowPeriod ! i of
                              None \<Rightarrow> None | Some s \<Rightarrow> Some (fsub f s)))
                 [Suc 0..<length data]"
    unfolding macd_line_def up by (simp add: e0)
  obtain rest where r: "macd_line (calculateEMA data fastPeriod) (calculateEMA data slowPeriod)
                           (length data) = Some (fsub x x) # rest"
    using ml by blast
  obtain vs where v: "valid_values (Some (fsub x x) # rest) = fsub x x # vs"
    by (simp add: valid_values_def)
  have s0: "array_read (calculateEMA (fsub x x # vs) signalPeriod) 0 = Some (fsub x x)"
    using calculateEMA_nth [of 0 "fsub x x # vs" signalPeriod]
    by (simp add: array_read_def length_calculateEMA)
  have m0: "macd (calculateMACD data fastPeriod slowPeriod signalPeriod ! 0) = Some (fsub x x)"
    unfolding calculateMACD_def Let_def r v up by simp
  have sg: "signal (calculateMACD data fastPeriod slowPeriod signalPeriod ! 0) = None"
    unfolding calculateMACD_def Let_def r v up by (simp add: s0 fsub_self_falsy)
  show ?thesis using m0 sg d by (auto simp: fsub_self)
qed

section \<open>calculateMACD on a flat series\<close>

lemma calculateEMA_three:
  assumes "4 \<le> period"
    and "representable c" and "representable (2 * c)" and "representable (3 * c)"
  shows "calculateEMA [Num c, Num c, Num c] period = [Some (Num c), Some (Num c), Some (Num c)]"
proof -
  have seeds: "\<forall>j. 1 \<le> j \<and> j \<le> 3 \<and> int j < period \<longrightarrow> representable (real j * c)"
  proof (intro allI impI)
    fix j :: nat assume "1 \<le> j \<and> j \<le> 3 \<and> int j < period"
    then have "j = 1 \<or> j = 2 \<or> j = 3" by auto
    then show "representable (real j * c)" using assms(2-4) by auto
  qed
  have "\<not> (\<exists>i. 0 < i \<and> i < (3::nat) \<and> period - 1 \<le> int i)" using assms(1) by auto
  then have "calculateEMA (replicate 3 (Num c)) period = replicate 3 (Some (Num c))"
    using seeds by (intro calculateEMA_replicate) blast+
  then show ?thesis by (simp add: numeral_eq_Suc)
qed

text \<open>
  C4. On the constant series \<open>[5, 5, 5]\<close> with the default periods the MACD line is 0 at
  every index and the EMA of its defined values is 0 at every index, but the signal that
  \<open>calculateMACD\<close> returns is \<open>null\<close> at every index, and so is the histogram: the
  alignment loop reads the signal through \<open>|| null\<close>, which replaces the number 0.
\<close>

theorem macd_zero_signal_dropped:
  "calculateMACD [Num 5, Num 5, Num 5] 12 26 9 =
     [\<lparr>macd = Some (Num 0), signal = None, histogram = None\<rparr>,
      \<lparr>macd = Some (Num 0), signal = None, histogram = None\<rparr>,
      \<lparr>macd = Some (Num 0), signal = None, histogram = None\<rparr>]
   \<and> calculateEMA (valid_values (map macd (calculateMACD [Num 5, Num 5, Num 5] 12 26 9))) 9
       = [Some (Num 0), Some (Num 0), Some (Num 0)]"
proof -
  have e: "calculateEMA [Num 5, Num 5, Num 5] p = [Some (Num 5), Some (Num 5), Some (Num 5)]"
    if "4 \<le> p" for p
    using that representable_5 representable_10 representable_15
    by (intro calculateEMA_three) simp_all
  have m: "macd_line [Some (Num 5), Some (Num 5), Some (Num 5)]
             [Some (Num 5), Some (Num 5), Some (Num 5)] (Suc (Suc (Suc 0)))
             = [Some (Num 0), Some (Num 0), Some (Num 0)]"
    by (simp add: macd_line_def fsub_self)
  have v: "valid_values [Some (Num 0), Some (Num 0), Some (Num 0)] = [Num 0, Num 0, Num 0]"
    by (simp add: valid_values_def)
  have s: "calculateEMA [Num 0, Num 0, Num 0] 9 = [Some (Num 0), Some (Num 0), Some (Num 0)]"
    using representable_zero by (intro calculateEMA_three) simp_all
  have r: "calculateMACD [Num 5, Num 5, Num 5] 12 26 9 =
     [\<lparr>macd = Some (Num 0), signal = None, histogram = None\<rparr>,
      \<lparr>macd = Some (Num 0), signal = None, histogram = None\<rparr>,
      \<lparr>macd = Some (Num 0), signal = None, histogram = None\<rparr>]"
    by (simp add: calculateMACD_def Let_def e m v s or_null_def array_read_def)
  show ?thesis by (simp add: r v s)
qed

section \<open>Risk ratios\<close>

lemma sqrt_5000: "sqrt (1 / 5000) = sqrt 2 / 100"
proof (rule real_sqrt_unique)
  show "(sqrt 2 / 100)\<^sup>2 = 1 / 5000" by (simp add: power_divide)
  show "0 \<le> sqrt 2 / 100" by simp
qed

text \<open>
  C7. For the returns \<open>[0.01, 0.03]\<close> and a risk-free rate of 0 the mean excess return
  is 0.02 and the standard deviation is \<open>0.01 * sqrt 2\<close>; \<open>calculateSharpeRatio\<close> returns
  their quotient \<open>sqrt 2\<close>, without the factor \<open>sqrt 252\<close>. For the returns
  \<open>[-0.01, 0.03]\<close> the mean is 0.01 and the downside deviation is 0.01;
  \<open>calculateSortinoRatio\<close> returns 1, again without the factor.
\<close>

theorem ratios_not_annualized:
  "calculateSharpeRatio [1 / 100, 3 / 100] 0 = Finite (sqrt 2)
   \<and> calculateSortinoRatio [- 1 / 100, 3 / 100] 0 = Finite 1
   \<and> sqrt 2 < sqrt 2 * sqrt 252 \<and> 1 < 1 * sqrt 252"
proof -
  have m: "calculateMean [1 / 100, 3 / 100] = 1 / 50"
    by (simp add: calculateMean_def reduce_sum_def)
  have sd: "calculateStandardDeviation [1 / 100, 3 / 100] = sqrt 2 / 100"
    by (simp add: calculateStandardDeviation_def m Let_def power2_eq_square sqrt_5000)
  have "sqrt 2 \<noteq> 0" by simp
  then have q: "(1 / 50) / (sqrt 2 / 100) = sqrt 2"
    using real_div_sqrt [of 2] by (simp add: field_simps)
  have a: "calculateSharpeRatio [1 / 100, 3 / 100] 0 = Finite (sqrt 2)"
    using q by (simp add: calculateSharpeRatio_def TRADING_DAYS_PER_YEAR_def Let_def m sd)
  have m2: "calculateMean [- (1 / 100), 3 / 100] = 1 / 100"
    by (simp add: calculateMean_def reduce_sum_def)
  have sq: "sqrt (1 / 10000) = 1 / 100"
    by (rule real_sqrt_unique) (simp_all add: power_divide)
  have b: "calculateSortinoRatio [- 1 / 100, 3 / 100] 0 = Finite 1"
    by (simp add: calculateSortinoRatio_def TRADING_DAYS_PER_YEAR_def Let_def m2 sq)
  have "1 < sqrt 252"
    using real_sqrt_less_mono [of 1 252] by simp
  then have c: "sqrt 2 < sqrt 2 * sqrt 252" "1 < 1 * sqrt 252" by simp_all
  show ?thesis using a b c by simp
qed

section \<open>Channel gating and the evaluator's effects\<close>












section \<open>The notification cap\<close>

lemma price_alert_fired_cap:
  assumes "1 \<le> maxNotifications (settings prev)"
  shows "length (notifications (price_alert_fired n aid now prev))
           \<le> nat (maxNotifications (settings prev))
         \<and> hd (notifications (price_alert_fired n aid now prev)) = n"
  using assms by (auto simp: price_alert_fired_def slice_def Let_def min_def)

lemma technical_alert_fired_cap:
  assumes "1 \<le> maxNotifications (settings prev)"
  shows "length (notifications (technical_alert_fired n aid now prev))
           \<le> nat (maxNotifications (settings prev))
         \<and> hd (notifications (technical_alert_fired n aid now prev)) = n"
  using assms by (auto simp: technical_alert_fired_def slice_def Let_def min_def)

text \<open>
  C5. The update made when a rule fires keeps the list within the cap (the lemmas above),
  but \<open>testAlert\<close> prepends its notification without cutting the list: on a state that
  holds 2 notifications under \<open>maxNotifications = 2\<close> it leaves 3.
\<close>

theorem testAlert_exceeds_cap:
  "maxNotifications (settings full_state) = 2
   \<and> length (notifications full_state) = 2
   \<and> maxNotifications (settings (fst (testAlert ''t'' 3000 (full_state, new_service granted True)))) = 2
   \<and> length (notifications (fst (testAlert ''t'' 3000 (full_state, new_service granted True)))) = 3"
  by (simp add: testAlert_def full_state_def initial_state_def Let_def)

section \<open>Scenarios on the store\<close>

text \<open>The bulk clear removes every triggered rule and keeps the notifications.\<close>

lemma clearTriggeredAlerts_none_left:
  "(\<forall>a \<in> set (priceAlerts (clearTriggeredAlerts st)). \<not> isTriggered a)
   \<and> (\<forall>a \<in> set (technicalAlerts (clearTriggeredAlerts st)). \<not> isTriggered a)
   \<and> notifications (clearTriggeredAlerts st) = notifications st"
  by (simp add: clearTriggeredAlerts_def)

text \<open>
  The same triggering tick handled twice by the store: one notification after the first
  pass, and still one after the second.
\<close>

lemma scenario_C:
  "length (notifications (fst (check_price_alerts 1000 (\<lambda>i. ''a'') (aapl_tick 151 100)
      (initial_state\<lparr>priceAlerts := [aapl_rule price_above 150]\<rparr>, new_service granted True))))
   = 1
   \<and> length (notifications (fst (check_price_alerts 2000 (\<lambda>i. ''b'') (aapl_tick 151 100)
        (check_price_alerts 1000 (\<lambda>i. ''a'') (aapl_tick 151 100)
           (initial_state\<lparr>priceAlerts := [aapl_rule price_above 150]\<rparr>,
            new_service granted True)))))
   = 1"
proof -
  let ?w0 = "(initial_state\<lparr>priceAlerts := [aapl_rule price_above 150]\<rparr>, new_service granted True)"
  have r: "symbol (aapl_rule price_above 150) = ''AAPL''" "isActive (aapl_rule price_above 150)"
    "alert_id (aapl_rule price_above 150) = ''price_1''"
    by (simp_all add: aapl_rule_def)
  have t: "pd_symbol (aapl_tick 151 100) = ''AAPL''" by (simp add: aapl_tick_def)
  have n0: "notifications initial_state = []" "maxNotifications (settings initial_state) = 50"
    by (simp_all add: initial_state_def)
  have w1: "check_price_alerts 1000 (\<lambda>i. ''a'') (aapl_tick 151 100) ?w0
      = check_price_alert_at 1000 ''a'' (aapl_tick 151 100) ?w0 0"
    by (simp add: check_price_alerts_def)
  have l1: "length (notifications (fst (check_price_alert_at 1000 ''a'' (aapl_tick 151 100) ?w0 0))) = 1"
    by (simp add: check_price_alert_at_def Let_def r t aapl_fire price_alert_fired_def n0 slice_def)
  have p1: "priceAlerts (fst (check_price_alert_at 1000 ''a'' (aapl_tick 151 100) ?w0 0))
     = [(aapl_rule price_above 150)\<lparr> isTriggered := True, triggeredAt := Some 1000,
          metadata := Some \<lparr>currentPrice = Some 151, triggerPrice = Some 150,
                             percentChange = Some 1\<rparr> \<rparr>]"
    by (simp add: check_price_alert_at_def Let_def r t aapl_fire price_alert_fired_def)
  obtain st1 svc1 where w: "check_price_alert_at 1000 ''a'' (aapl_tick 151 100) ?w0 0 = (st1, svc1)"
    by (cases "check_price_alert_at 1000 ''a'' (aapl_tick 151 100) ?w0 0")
  have tr: "isTriggered (priceAlerts st1 ! 0)" using p1 w by simp
  have len: "length (priceAlerts st1) = 1" using p1 w by simp
  have "check_price_alerts 2000 (\<lambda>i. ''b'') (aapl_tick 151 100) (st1, svc1)
          = check_price_alert_at 2000 ''b'' (aapl_tick 151 100) (st1, svc1) 0"
    by (simp add: check_price_alerts_def len)
  also have "\<dots> = (st1, svc1)"
    using tr by (rule check_price_alert_at_triggered)
  finally show ?thesis using l1 w w1 by simp
qed

text \<open>
  Three rules firing under \<open>maxNotifications = 2\<close>: the state update keeps the two newest
  notifications, newest first.
\<close>

lemma scenario_D:
  "notifications
     (price_alert_fired (sample_notification 3) ''price_3'' 3
        (price_alert_fired (sample_notification 2) ''price_2'' 2
           (price_alert_fired (sample_notification 1) ''price_1'' 1
              (initial_state\<lparr>settings := (settings initial_state)\<lparr>maxNotifications := 2\<rparr>\<rparr>))))
   = [sample_notification 3, sample_notification 2]"
  by (simp add: price_alert_fired_def initial_state_def slice_def)

end
